theory Spec2Isabelle
  imports Main "HOL-Library.Word"
begin

section \<open>Synchronized checkpoints (checkpointsync.cpp)\<close>

text \<open>
  A shallow embedding of the sync-checkpoint functions of \<^verbatim>\<open>src/checkpointsync.cpp\<close>.
  The globals of the file and the collaborators it reads or writes (block index, active
  chain, argument table, block-tree database, connection manager) are the fields of one
  record that every function takes and returns. Functions of other files (signature
  check, serialisation, key handling, database writes) are the fields of a second record
  and stay uninterpreted.
\<close>

subsection \<open>Data\<close>

type_synonym uint256 = "256 word"
type_synonym bytes = "8 word list"

text \<open>A \<^verbatim>\<open>CBlockIndex*\<close> is an address; the null pointer is \<open>None\<close> of \<open>addr option\<close>.\<close>

type_synonym addr = nat

text \<open>A \<^verbatim>\<open>CNode*\<close>.\<close>

type_synonym peer = nat

text \<open>
  The members of \<^verbatim>\<open>CBlockIndex\<close> that this file reads: \<^verbatim>\<open>GetBlockHash()\<close>,
  \<^verbatim>\<open>pprev\<close> and \<^verbatim>\<open>nHeight\<close>. \<^verbatim>\<open>nHeight\<close> is a C++ \<^verbatim>\<open>int\<close>; it is an \<open>int\<close> here,
  and the one addition on it (in \<open>AutoSelectSyncCheckpoint\<close>) keeps the low 32 bits.
\<close>

record CBlockIndex =
  GetBlockHash :: uint256
  pprev :: "addr option"
  nHeight :: int

text \<open>
  Modelled from the spec: the classes \<^verbatim>\<open>CUnsignedSyncCheckpoint\<close> and
  \<^verbatim>\<open>CSyncCheckpoint\<close> are declared in checkpointsync.h, which is not among the
  sources. The spec gives a message the checkpoint hash, the signed bytes and the
  signature, and a distinguished empty (null) message.
\<close>

record CUnsignedSyncCheckpoint =
  hashCheckpoint :: uint256

record CSyncCheckpoint = CUnsignedSyncCheckpoint +
  vchMsg :: bytes
  vchSig :: bytes

text \<open>Modelled from the spec: \<^verbatim>\<open>SetNull\<close> gives the empty message, \<^verbatim>\<open>IsNull\<close> recognises it
  by its empty signed bytes.\<close>

definition SetNull :: "CSyncCheckpoint" where
  "SetNull = \<lparr>hashCheckpoint = 0, vchMsg = [], vchSig = []\<rparr>"

definition IsNull :: "CSyncCheckpoint \<Rightarrow> bool" where
  "IsNull m = (vchMsg m = [])"

text \<open>What the node sends: a block request to one peer, a checkpoint message to one peer.\<close>

datatype net_event = AskFor peer uint256 | Relay peer CSyncCheckpoint

text \<open>What ends a call other than a return: an exception of the data stream, a null
  pointer that is dereferenced.\<close>

datatype fault = StreamFailure | NullPointer

text \<open>
  The globals of checkpointsync.cpp (the first seven fields) and the state of the
  collaborators. The block index is \<^verbatim>\<open>mapBlockIndex\<close> (hash to pointer) over a memory of
  \<^verbatim>\<open>CBlockIndex\<close> objects. Of \<^verbatim>\<open>chainActive\<close> the file uses \<^verbatim>\<open>Tip()\<close> and
  \<^verbatim>\<open>Contains()\<close>; of \<^verbatim>\<open>gArgs\<close> the table of arguments that are set.
\<close>

record 'db world =
  hashSyncCheckpoint :: uint256
  hashPendingCheckpoint :: uint256
  checkpointMessage :: CSyncCheckpoint
  checkpointMessagePending :: CSyncCheckpoint
  hashInvalidCheckpoint :: uint256
  strCheckpointWarning :: string
  strMasterPrivKey :: string
  mapBlockIndex :: "uint256 \<rightharpoonup> addr"
  memBlockIndex :: "addr \<Rightarrow> CBlockIndex"
  chainActive_Tip :: "addr option"
  chainActive_Contains :: "addr \<Rightarrow> bool"
  mapArgs :: "string \<rightharpoonup> string"
  pblocktree :: 'db
  g_connman :: "peer list option"
  sent :: "net_event list"

subsection \<open>ValidateSyncCheckpoint\<close>

text \<open>
  The loop that both branches of \<^verbatim>\<open>ValidateSyncCheckpoint\<close> run:
  \<^verbatim>\<open>while (pindex->nHeight > target) if (!(pindex = pindex->pprev)) return error(...)\<close>.
  \<open>None\<close>: the loop never ends; \<open>Some None\<close>: \<^verbatim>\<open>pprev\<close> was null;
  \<open>Some (Some p)\<close>: the loop ended at \<open>p\<close>.
\<close>

partial_function (option) TraceBack ::
  "(addr \<Rightarrow> CBlockIndex) \<Rightarrow> int \<Rightarrow> addr \<Rightarrow> addr option option" where
  "TraceBack M target pindex =
     (if nHeight (M pindex) > target
      then (case pprev (M pindex) of
              None \<Rightarrow> Some None
            | Some p \<Rightarrow> TraceBack M target p)
      else Some (Some pindex))"

declare TraceBack.simps [code]

text \<open>\<^verbatim>\<open>error(...)\<close> logs and returns false. The result is the returned bool and the
  globals after the call; \<open>None\<close> when a loop does not end.\<close>

definition ValidateSyncCheckpoint ::
  "'db world \<Rightarrow> uint256 \<Rightarrow> (bool \<times> 'db world) option" where
  "ValidateSyncCheckpoint w hashCheckpoint' =
     (case mapBlockIndex w (hashSyncCheckpoint w) of
        None \<Rightarrow> Some (False, w)
      | Some pindexSyncCheckpoint \<Rightarrow>
     (case mapBlockIndex w hashCheckpoint' of
        None \<Rightarrow> Some (False, w)
      | Some pindexCheckpointRecv \<Rightarrow>
          let M = memBlockIndex w in
          if nHeight (M pindexCheckpointRecv) \<le> nHeight (M pindexSyncCheckpoint)
          then (case TraceBack M (nHeight (M pindexCheckpointRecv)) pindexSyncCheckpoint of
                  None \<Rightarrow> None
                | Some None \<Rightarrow> Some (False, w)
                | Some (Some pindex) \<Rightarrow>
                    if GetBlockHash (M pindex) \<noteq> hashCheckpoint'
                    then Some (False, w\<lparr>hashInvalidCheckpoint := hashCheckpoint'\<rparr>)
                    else Some (False, w))
          else (case TraceBack M (nHeight (M pindexSyncCheckpoint)) pindexCheckpointRecv of
                  None \<Rightarrow> None
                | Some None \<Rightarrow> Some (False, w)
                | Some (Some pindex) \<Rightarrow>
                    if GetBlockHash (M pindex) \<noteq> hashSyncCheckpoint w
                    then Some (False, w\<lparr>hashInvalidCheckpoint := hashCheckpoint'\<rparr>)
                    else Some (True, w))))"

subsection \<open>Collaborators\<close>

text \<open>
  Functions of other files that checkpointsync.cpp calls, taken as parameters:
  \<^item> \<open>InterpretBool\<close>, \<open>atoi64\<close>: how the argument table reads a string as a bool
    or as a 64-bit integer;
  \<^item> \<open>Verify msg sig\<close>: \<^verbatim>\<open>CPubKey(ParseHex(strMasterPubKey)).Verify(Hash(msg), sig)\<close>
    for the master public key of the network;
  \<^item> \<open>Serialize\<close>, \<open>Unserialize\<close>: the data stream on the unsigned part of a
    message; \<open>None\<close> when the stream throws;
  \<^item> \<open>SetString\<close>, \<open>IsValid\<close>, \<open>Sign key msg\<close>: \<^verbatim>\<open>CBitcoinSecret::SetString\<close>
    followed by \<^verbatim>\<open>GetKey\<close>, \<^verbatim>\<open>CKey::IsValid\<close>, and
    \<^verbatim>\<open>key.Sign(Hash(msg), vchSig)\<close>; \<open>None\<close> when the call returns false;
  \<^item> \<open>txdb_WriteSyncCheckpoint\<close>, \<open>txdb_Sync\<close>: the two calls on \<^verbatim>\<open>pblocktree\<close>,
    each returning its bool and the database after the call;
  \<^item> \<open>GetLatestHardenedCheckpoint\<close>, \<open>hashGenesisBlock\<close>: constants of the network.
\<close>

record ('db, 'key) extern =
  InterpretBool :: "string \<Rightarrow> bool"
  atoi64 :: "string \<Rightarrow> int"
  Verify :: "bytes \<Rightarrow> bytes \<Rightarrow> bool"
  Serialize :: "uint256 \<Rightarrow> bytes"
  Unserialize :: "bytes \<Rightarrow> uint256 option"
  SetString :: "string \<Rightarrow> 'key option"
  IsValid :: "'key \<Rightarrow> bool"
  Sign :: "'key \<Rightarrow> bytes \<Rightarrow> bytes option"
  txdb_WriteSyncCheckpoint :: "'db \<Rightarrow> uint256 \<Rightarrow> bool \<times> 'db"
  txdb_Sync :: "'db \<Rightarrow> bool \<times> 'db"
  GetLatestHardenedCheckpoint :: uint256
  hashGenesisBlock :: uint256

text \<open>
  Modelled from the spec: \<^verbatim>\<open>ArgsManager\<close> (util.h) is not among the sources. The
  configuration is string-keyed; a getter returns its second argument when the key is
  not set (``default value -1 for checkpointdepth'', as the head of checkpointsync.cpp
  says of \<^verbatim>\<open>GetArg("-checkpointdepth", -1)\<close>).
\<close>

definition IsArgSet :: "(string \<rightharpoonup> string) \<Rightarrow> string \<Rightarrow> bool" where
  "IsArgSet args strArg = (args strArg \<noteq> None)"

definition GetBoolArg ::
  "('db, 'key) extern \<Rightarrow> (string \<rightharpoonup> string) \<Rightarrow> string \<Rightarrow> bool \<Rightarrow> bool" where
  "GetBoolArg x args strArg fDefault =
     (case args strArg of None \<Rightarrow> fDefault | Some v \<Rightarrow> InterpretBool x v)"

definition GetArg ::
  "('db, 'key) extern \<Rightarrow> (string \<rightharpoonup> string) \<Rightarrow> string \<Rightarrow> int \<Rightarrow> int" where
  "GetArg x args strArg nDefault =
     (case args strArg of None \<Rightarrow> nDefault | Some v \<Rightarrow> atoi64 x v)"

definition ForceSetArg ::
  "(string \<rightharpoonup> string) \<Rightarrow> string \<Rightarrow> string \<Rightarrow> (string \<rightharpoonup> string)" where
  "ForceSetArg args strArg strValue = args(strArg \<mapsto> strValue)"

text \<open>The cast \<^verbatim>\<open>(int)\<close> of a 64-bit value keeps the low 32 bits, read as two's
  complement.\<close>

definition int_cast :: "int \<Rightarrow> int" where
  "int_cast v = sint (word_of_int v :: 32 word)"

text \<open>Modelled from the spec: \<^verbatim>\<open>CSyncCheckpoint::RelayTo\<close> is defined in
  checkpointsync.h, not among the sources; it hands the message to the peer.\<close>

definition RelayTo :: "CSyncCheckpoint \<Rightarrow> peer \<Rightarrow> 'db world \<Rightarrow> 'db world" where
  "RelayTo m pnode w = w\<lparr>sent := sent w @ [Relay pnode m]\<rparr>"

subsection \<open>WriteSyncCheckpoint, enforcement\<close>

definition WriteSyncCheckpoint ::
  "('db, 'key) extern \<Rightarrow> uint256 \<Rightarrow> 'db world \<Rightarrow> bool \<times> 'db world" where
  "WriteSyncCheckpoint x hashCheckpoint' w =
     (case txdb_WriteSyncCheckpoint x (pblocktree w) hashCheckpoint' of
        (written, d1) \<Rightarrow>
          if \<not> written then (False, w\<lparr>pblocktree := d1\<rparr>)
          else (case txdb_Sync x d1 of
                  (synced, d2) \<Rightarrow>
                    if \<not> synced then (False, w\<lparr>pblocktree := d2\<rparr>)
                    else (True, w\<lparr>pblocktree := d2, hashSyncCheckpoint := hashCheckpoint'\<rparr>)))"

definition IsSyncCheckpointEnforced :: "('db, 'key) extern \<Rightarrow> 'db world \<Rightarrow> bool" where
  "IsSyncCheckpointEnforced x w =
     (GetBoolArg x (mapArgs w) ''-enforcecheckpoint'' True
      \<or> IsArgSet (mapArgs w) ''-checkpointkey'')"

definition SetCheckpointEnforce :: "bool \<Rightarrow> 'db world \<Rightarrow> 'db world" where
  "SetCheckpointEnforce fEnforce w =
     (let w1 = (if fEnforce then w\<lparr>strCheckpointWarning := []\<rparr> else w)
      in w1\<lparr>mapArgs := ForceSetArg (mapArgs w1) ''-enforcecheckpoint''
                          (if fEnforce then ''1'' else ''0'')\<rparr>)"

subsection \<open>AcceptPendingSyncCheckpoint\<close>

text \<open>
  The body of \<^verbatim>\<open>if (IsSyncCheckpointEnforced() && !chainActive.Contains(pindexCheckpoint))\<close>
  is commented out in the source (here and in \<open>ProcessSyncCheckpoint\<close> and
  \<open>ResetSyncCheckpoint\<close>), so the statement does nothing and has no counterpart below.
\<close>

definition AcceptPendingSyncCheckpoint ::
  "('db, 'key) extern \<Rightarrow> 'db world \<Rightarrow> (bool \<times> 'db world) option" where
  "AcceptPendingSyncCheckpoint x w =
     (if hashPendingCheckpoint w \<noteq> 0 \<and> mapBlockIndex w (hashPendingCheckpoint w) \<noteq> None
      then (case ValidateSyncCheckpoint w (hashPendingCheckpoint w) of
              None \<Rightarrow> None
            | Some (valid, w1) \<Rightarrow>
                if \<not> valid
                then Some (False, w1\<lparr>hashPendingCheckpoint := 0,
                                     checkpointMessagePending := SetNull\<rparr>)
                else (case WriteSyncCheckpoint x (hashPendingCheckpoint w1) w1 of
                        (written, w2) \<Rightarrow>
                          if \<not> written then Some (False, w2)
                          else
                            let w3 = w2\<lparr>hashPendingCheckpoint := 0,
                                        checkpointMessage := checkpointMessagePending w2,
                                        checkpointMessagePending := SetNull\<rparr>
                            in (case g_connman w3 of
                                  Some vNodes \<Rightarrow>
                                    if \<not> IsNull (checkpointMessage w3)
                                    then Some (True, fold (RelayTo (checkpointMessage w3)) vNodes w3)
                                    else Some (True, w3)
                                | None \<Rightarrow> Some (True, w3))))
      else Some (False, w))"

subsection \<open>AutoSelectSyncCheckpoint\<close>

text \<open>
  The loop \<^verbatim>\<open>while (pindex->pprev && pindex->nHeight + depth > chainActive.Tip()->nHeight)
  pindex = pindex->pprev\<close>; \<open>None\<close> when it never ends. The sum is a C++ \<^verbatim>\<open>int\<close>:
  where it leaves the 32-bit range (undefined in C++) it wraps around here, and the
  statements below are made where it does not.
\<close>

partial_function (option) SearchBackward ::
  "(addr \<Rightarrow> CBlockIndex) \<Rightarrow> int \<Rightarrow> int \<Rightarrow> addr \<Rightarrow> addr option" where
  "SearchBackward M depth tipHeight pindex =
     (case pprev (M pindex) of
        Some p \<Rightarrow>
          if int_cast (nHeight (M pindex) + depth) > tipHeight
          then SearchBackward M depth tipHeight p
          else Some pindex
      | None \<Rightarrow> Some pindex)"

declare SearchBackward.simps [code]

text \<open>The value of \<^verbatim>\<open>(int)gArgs.GetArg("-checkpointdepth", -1)\<close>.\<close>

definition checkpointdepth :: "('db, 'key) extern \<Rightarrow> 'db world \<Rightarrow> int" where
  "checkpointdepth x w = int_cast (GetArg x (mapArgs w) ''-checkpointdepth'' (- 1))"

definition AutoSelectSyncCheckpoint ::
  "('db, 'key) extern \<Rightarrow> 'db world \<Rightarrow> (fault + uint256) option" where
  "AutoSelectSyncCheckpoint x w =
     (case chainActive_Tip w of
        None \<Rightarrow> Some (Inl NullPointer)
      | Some tip \<Rightarrow>
          (case SearchBackward (memBlockIndex w) (checkpointdepth x w)
                  (nHeight (memBlockIndex w tip)) tip of
             None \<Rightarrow> None
           | Some pindex \<Rightarrow> Some (Inr (GetBlockHash (memBlockIndex w pindex)))))"

subsection \<open>ResetSyncCheckpoint, AskForPendingSyncCheckpoint\<close>

definition ResetSyncCheckpoint ::
  "('db, 'key) extern \<Rightarrow> 'db world \<Rightarrow> bool \<times> 'db world" where
  "ResetSyncCheckpoint x w =
     (let hash = GetLatestHardenedCheckpoint x;
          w1 = (case mapBlockIndex w hash of
                  Some pindex \<Rightarrow> w
                | None \<Rightarrow> w\<lparr>hashPendingCheckpoint := hash,
                             checkpointMessagePending := SetNull\<rparr>)
      in WriteSyncCheckpoint x
           (if (case mapBlockIndex w1 hash of
                  None \<Rightarrow> False
                | Some pindex \<Rightarrow> chainActive_Contains w1 pindex)
            then hash else hashGenesisBlock x)
           w1)"

definition AskForPendingSyncCheckpoint :: "peer option \<Rightarrow> 'db world \<Rightarrow> 'db world" where
  "AskForPendingSyncCheckpoint pfrom w =
     (case pfrom of
        None \<Rightarrow> w
      | Some pnode \<Rightarrow>
          if hashPendingCheckpoint w \<noteq> 0 \<and> mapBlockIndex w (hashPendingCheckpoint w) = None
          then w\<lparr>sent := sent w @ [AskFor pnode (hashPendingCheckpoint w)]\<rparr>
          else w)"

subsection \<open>CheckSignature, ProcessSyncCheckpoint, SendSyncCheckpoint\<close>

text \<open>\<^verbatim>\<open>CheckSignature\<close> writes the unserialised hash into the message it is called on,
  so it returns the message as well.\<close>

definition CheckSignature ::
  "('db, 'key) extern \<Rightarrow> CSyncCheckpoint \<Rightarrow> fault + (bool \<times> CSyncCheckpoint)" where
  "CheckSignature x m =
     (if \<not> Verify x (vchMsg m) (vchSig m) then Inr (False, m)
      else (case Unserialize x (vchMsg m) of
              None \<Rightarrow> Inl StreamFailure
            | Some h \<Rightarrow> Inr (True, m\<lparr>hashCheckpoint := h\<rparr>)))"

text \<open>
  In the branch for an unknown block the body of \<^verbatim>\<open>if (pfrom)\<close> is commented out in the
  source: nothing is sent, and \<open>pfrom\<close> is not used.
\<close>

definition ProcessSyncCheckpoint ::
  "('db, 'key) extern \<Rightarrow> CSyncCheckpoint \<Rightarrow> peer option \<Rightarrow> 'db world
     \<Rightarrow> (fault + (bool \<times> CSyncCheckpoint \<times> 'db world)) option" where
  "ProcessSyncCheckpoint x m pfrom w =
     (case CheckSignature x m of
        Inl f \<Rightarrow> Some (Inl f)
      | Inr (checked, this) \<Rightarrow>
          if \<not> checked then Some (Inr (False, this, w))
          else if mapBlockIndex w (hashCheckpoint this) = None
          then Some (Inr (False, this,
                 w\<lparr>hashPendingCheckpoint := hashCheckpoint this,
                   checkpointMessagePending := this\<rparr>))
          else (case ValidateSyncCheckpoint w (hashCheckpoint this) of
                  None \<Rightarrow> None
                | Some (valid, w1) \<Rightarrow>
                    if \<not> valid then Some (Inr (False, this, w1))
                    else (case WriteSyncCheckpoint x (hashCheckpoint this) w1 of
                            (written, w2) \<Rightarrow>
                              if \<not> written then Some (Inr (False, this, w2))
                              else Some (Inr (True, this,
                                     w2\<lparr>checkpointMessage := this,
                                        hashPendingCheckpoint := 0,
                                        checkpointMessagePending := SetNull\<rparr>)))))"

definition SendSyncCheckpoint ::
  "('db, 'key) extern \<Rightarrow> uint256 \<Rightarrow> 'db world \<Rightarrow> (fault + (bool \<times> 'db world)) option" where
  "SendSyncCheckpoint x hashCheckpoint' w =
     (let checkpoint = SetNull\<lparr>hashCheckpoint := hashCheckpoint',
                               vchMsg := Serialize x hashCheckpoint'\<rparr>
      in if strMasterPrivKey w = [] then Some (Inr (False, w))
         else (case SetString x (strMasterPrivKey w) of
                 None \<Rightarrow> Some (Inr (False, w))
               | Some key \<Rightarrow>
                   if \<not> IsValid x key then Some (Inr (False, w))
                   else (case Sign x key (vchMsg checkpoint) of
                           None \<Rightarrow> Some (Inr (False, w))
                         | Some sig \<Rightarrow>
                             (case ProcessSyncCheckpoint x (checkpoint\<lparr>vchSig := sig\<rparr>) None w of
                                None \<Rightarrow> None
                              | Some (Inl f) \<Rightarrow> Some (Inl f)
                              | Some (Inr (processed, this, w1)) \<Rightarrow>
                                  if \<not> processed then Some (Inr (False, w1))
                                  else (case g_connman w1 of
                                          None \<Rightarrow> Some (Inl NullPointer)
                                        | Some vNodes \<Rightarrow>
                                            Some (Inr (True, fold (RelayTo this) vNodes w1)))))))"

section \<open>Notions used in the statements\<close>

text \<open>\<open>walk M n a\<close> follows \<^verbatim>\<open>pprev\<close> \<open>n\<close> times from \<open>a\<close>; \<open>None\<close> when it meets a
  null pointer first.\<close>

fun walk :: "(addr \<Rightarrow> CBlockIndex) \<Rightarrow> nat \<Rightarrow> addr \<Rightarrow> addr option" where
  "walk M 0 a = Some a"
| "walk M (Suc n) a = (case pprev (M a) of None \<Rightarrow> None | Some p \<Rightarrow> walk M n p)"

text \<open>\<open>b\<close> is a strict ancestor of \<open>a\<close>: one or more \<^verbatim>\<open>pprev\<close> steps lead from
  \<open>a\<close> to \<open>b\<close>.\<close>

definition strict_ancestor :: "(addr \<Rightarrow> CBlockIndex) \<Rightarrow> addr \<Rightarrow> addr \<Rightarrow> bool" where
  "strict_ancestor M b a = (\<exists>n. walk M (Suc n) a = Some b)"

text \<open>
  The invariants of the block index that the file relies on (section 3 of the spec, and
  how \<^verbatim>\<open>mapBlockIndex\<close> is filled): a block stored under a hash has that hash; heights
  are not negative; a block without a parent has height 0; the parent of an indexed
  block is indexed under its own hash and is one lower.
\<close>

definition block_tree_ok :: "(uint256 \<rightharpoonup> addr) \<Rightarrow> (addr \<Rightarrow> CBlockIndex) \<Rightarrow> bool" where
  "block_tree_ok I M =
     (\<forall>h a. I h = Some a \<longrightarrow>
        GetBlockHash (M a) = h \<and>
        0 \<le> nHeight (M a) \<and>
        (case pprev (M a) of
           None \<Rightarrow> nHeight (M a) = 0
         | Some p \<Rightarrow> nHeight (M p) = nHeight (M a) - 1 \<and> I (GetBlockHash (M p)) = Some p))"

text \<open>The block at \<open>a\<close> is in the index, under its own hash.\<close>

definition known :: "(uint256 \<rightharpoonup> addr) \<Rightarrow> (addr \<Rightarrow> CBlockIndex) \<Rightarrow> addr \<Rightarrow> bool" where
  "known I M a = (I (GetBlockHash (M a)) = Some a)"

text \<open>Both database calls of \<open>WriteSyncCheckpoint\<close> return true: the write, then the
  commit on the database the write left.\<close>

definition durable_write_ok :: "('db, 'key) extern \<Rightarrow> 'db \<Rightarrow> uint256 \<Rightarrow> bool" where
  "durable_write_ok x d h =
     (fst (txdb_WriteSyncCheckpoint x d h) \<and>
      fst (txdb_Sync x (snd (txdb_WriteSyncCheckpoint x d h))))"

text \<open>The signature that the key steps of \<open>SendSyncCheckpoint\<close> produce for \<open>msg\<close>;
  \<open>None\<close> when the key string is empty or one of the steps fails.\<close>

definition master_signature :: "('db, 'key) extern \<Rightarrow> string \<Rightarrow> bytes \<Rightarrow> bytes option" where
  "master_signature x strPrivKey msg =
     (if strPrivKey = [] then None
      else (case SetString x strPrivKey of
              None \<Rightarrow> None
            | Some key \<Rightarrow> if \<not> IsValid x key then None else Sign x key msg))"

text \<open>The block of the latest hardened checkpoint is in the index and in the active chain.\<close>

definition hardened_active :: "('db, 'key) extern \<Rightarrow> 'db world \<Rightarrow> bool" where
  "hardened_active x w =
     (\<exists>p. mapBlockIndex w (GetLatestHardenedCheckpoint x) = Some p \<and> chainActive_Contains w p)"

section \<open>A small block tree\<close>

text \<open>
  Genesis (hash 10, at address 0), two blocks on top of it (hashes 11 and 12, heights 1
  and 2) that form the active chain, and a fork of height 1 on genesis (hash 13).
  The collaborators: a signature is valid when it is the byte 1, a message is the low
  byte of its hash, the key string \<open>''key''\<close> is the only one that decodes, and the
  database records what is written and never fails.
\<close>

definition ex_mem :: "addr \<Rightarrow> CBlockIndex" where
  "ex_mem = (\<lambda>_. \<lparr>GetBlockHash = 10, pprev = None, nHeight = 0\<rparr>)
     (1 := \<lparr>GetBlockHash = 11, pprev = Some 0, nHeight = 1\<rparr>,
      2 := \<lparr>GetBlockHash = 12, pprev = Some 1, nHeight = 2\<rparr>,
      3 := \<lparr>GetBlockHash = 13, pprev = Some 0, nHeight = 1\<rparr>)"

definition ex_index :: "uint256 \<rightharpoonup> addr" where
  "ex_index = [10 \<mapsto> 0, 11 \<mapsto> 1, 12 \<mapsto> 2, 13 \<mapsto> 3]"

definition ex_x :: "(uint256 list, nat) extern" where
  "ex_x = \<lparr>InterpretBool = (\<lambda>s. s \<noteq> ''0''),
          atoi64 = (\<lambda>s. if s = ''5'' then 5 else if s = ''1'' then 1 else 0),
          Verify = (\<lambda>msg sig. sig = [1]),
          Serialize = (\<lambda>h. [ucast h]),
          Unserialize = (\<lambda>bs. case bs of [b] \<Rightarrow> Some (ucast b) | _ \<Rightarrow> None),
          SetString = (\<lambda>s. if s = ''key'' then Some 1 else None),
          IsValid = (\<lambda>k. True),
          Sign = (\<lambda>k msg. Some [1]),
          txdb_WriteSyncCheckpoint = (\<lambda>d h. (True, h # d)),
          txdb_Sync = (\<lambda>d. (True, d)),
          GetLatestHardenedCheckpoint = 13,
          hashGenesisBlock = 10\<rparr>"

text \<open>The same collaborators with a database whose commit fails.\<close>

definition ex_x_nosync :: "(uint256 list, nat) extern" where
  "ex_x_nosync = ex_x\<lparr>txdb_Sync := (\<lambda>d. (False, d))\<rparr>"

definition ex_w :: "uint256 list world" where
  "ex_w = \<lparr>hashSyncCheckpoint = 10, hashPendingCheckpoint = 0,
     checkpointMessage = SetNull, checkpointMessagePending = SetNull,
     hashInvalidCheckpoint = 0, strCheckpointWarning = [], strMasterPrivKey = [],
     mapBlockIndex = ex_index, memBlockIndex = ex_mem,
     chainActive_Tip = Some 2, chainActive_Contains = (\<lambda>a. a = 0 \<or> a = 1 \<or> a = 2),
     mapArgs = Map.empty, pblocktree = [], g_connman = Some [7, 8], sent = []\<rparr>"

text \<open>A network whose latest hardened checkpoint is the genesis block itself, and a node
  that has no block in its index yet.\<close>

definition ex_x_genesis_only :: "(uint256 list, nat) extern" where
  "ex_x_genesis_only = ex_x\<lparr>GetLatestHardenedCheckpoint := 10\<rparr>"

definition ex_w_empty :: "uint256 list world" where
  "ex_w_empty = ex_w\<lparr>hashSyncCheckpoint := 0, mapBlockIndex := Map.empty,
     chainActive_Tip := None, chainActive_Contains := (\<lambda>a. False)\<rparr>"

definition ex_w_reset :: "uint256 list world" where
  "ex_w_reset = ex_w_empty\<lparr>hashSyncCheckpoint := 10, hashPendingCheckpoint := 10,
     pblocktree := [10]\<rparr>"

definition ex_msg :: "uint256 \<Rightarrow> CSyncCheckpoint" where
  "ex_msg h = \<lparr>hashCheckpoint = h, vchMsg = [ucast h], vchSig = [1]\<rparr>"

section \<open>The block index\<close>

lemma known_prev:
  "block_tree_ok I M \<Longrightarrow> known I M a \<Longrightarrow> pprev (M a) = Some p \<Longrightarrow>
   known I M p \<and> nHeight (M p) = nHeight (M a) - 1"
  unfolding block_tree_ok_def known_def by (fastforce split: option.splits)

lemma known_root:
  "block_tree_ok I M \<Longrightarrow> known I M a \<Longrightarrow> pprev (M a) = None \<Longrightarrow> nHeight (M a) = 0"
  unfolding block_tree_ok_def known_def by (fastforce split: option.splits)

lemma known_nonneg:
  "block_tree_ok I M \<Longrightarrow> known I M a \<Longrightarrow> 0 \<le> nHeight (M a)"
  unfolding block_tree_ok_def known_def by fastforce

lemma known_lookup:
  "block_tree_ok I M \<Longrightarrow> I h = Some a \<Longrightarrow> known I M a \<and> GetBlockHash (M a) = h"
  unfolding block_tree_ok_def known_def by fastforce

text \<open>Every step towards the root stays in the index and goes one down.\<close>

lemma walk_known:
  "block_tree_ok I M \<Longrightarrow> known I M a \<Longrightarrow> walk M n a = Some b \<Longrightarrow>
   known I M b \<and> nHeight (M b) = nHeight (M a) - int n"
proof (induction n arbitrary: a)
  case 0
  then show ?case by simp
next
  case (Suc n)
  then obtain p where p: "pprev (M a) = Some p" and wp: "walk M n p = Some b"
    by (auto split: option.splits)
  from known_prev[OF Suc.prems(1,2) p] Suc.IH[OF Suc.prems(1) _ wp]
  show ?case by simp
qed

lemma ancestor_height:
  assumes ok: "block_tree_ok I M" and a: "I hA = Some a"
    and anc: "walk M (Suc n) a = Some b"
  shows "nat (nHeight (M a) - nHeight (M b)) = Suc n"
proof -
  from known_lookup[OF ok a] have "known I M a" by simp
  from walk_known[OF ok this anc] show ?thesis by simp
qed

text \<open>In a well-formed index the loop of \<open>ValidateSyncCheckpoint\<close> ends, on the block
  that lies as many steps back as the heights differ.\<close>

lemma TraceBack_walk:
  "block_tree_ok I M \<Longrightarrow> known I M a \<Longrightarrow> 0 \<le> t \<Longrightarrow> nat (nHeight (M a) - t) = n \<Longrightarrow>
   \<exists>b. TraceBack M t a = Some (Some b) \<and> walk M n a = Some b"
proof (induction n arbitrary: a)
  case 0
  then have "\<not> nHeight (M a) > t" by simp
  then show ?case by (subst TraceBack.simps) simp
next
  case (Suc n)
  then have gt: "nHeight (M a) > t" by linarith
  with Suc.prems have "nHeight (M a) \<noteq> 0" by simp
  with known_root[OF Suc.prems(1,2)] obtain p where p: "pprev (M a) = Some p"
    by (cases "pprev (M a)") auto
  from known_prev[OF Suc.prems(1,2) p] have kp: "known I M p"
    and hp: "nHeight (M p) = nHeight (M a) - 1" by simp_all
  from hp Suc.prems(4) have "nat (nHeight (M p) - t) = n" by linarith
  from Suc.IH[OF Suc.prems(1) kp Suc.prems(3) this] obtain b where
    "TraceBack M t p = Some (Some b)" "walk M n p = Some b" by blast
  with gt p show ?case by (subst TraceBack.simps) simp
qed

section \<open>ValidateSyncCheckpoint\<close>

text \<open>The only global that \<open>ValidateSyncCheckpoint\<close> writes is
  \<open>hashInvalidCheckpoint\<close>, and only when it returns false.\<close>

lemma Validate_result:
  "ValidateSyncCheckpoint w h = Some (v, w1) \<Longrightarrow>
   w1 = w \<or> (\<not> v \<and> w1 = w\<lparr>hashInvalidCheckpoint := h\<rparr>)"
  by (auto simp: ValidateSyncCheckpoint_def Let_def split: option.splits if_splits)

lemma Validate_True_same: "ValidateSyncCheckpoint w h = Some (True, w1) \<Longrightarrow> w1 = w"
  by (drule Validate_result) simp

lemma Validate_sent: "ValidateSyncCheckpoint w h = Some (v, w1) \<Longrightarrow> sent w1 = sent w"
  by (drule Validate_result) auto

text \<open>The received block is not higher than the current checkpoint: the first branch.\<close>

lemma Validate_older:
  assumes ok: "block_tree_ok (mapBlockIndex w) (memBlockIndex w)"
    and c: "mapBlockIndex w (hashSyncCheckpoint w) = Some c"
    and r: "mapBlockIndex w h = Some r"
    and le: "nHeight (memBlockIndex w r) \<le> nHeight (memBlockIndex w c)"
  shows "\<exists>x. walk (memBlockIndex w)
                (nat (nHeight (memBlockIndex w c) - nHeight (memBlockIndex w r))) c = Some x \<and>
             ValidateSyncCheckpoint w h =
               Some (False, if GetBlockHash (memBlockIndex w x) \<noteq> h
                            then w\<lparr>hashInvalidCheckpoint := h\<rparr> else w)"
proof -
  let ?I = "mapBlockIndex w" and ?M = "memBlockIndex w"
  from known_lookup[OF ok c] have kc: "known ?I ?M c" by simp
  from known_lookup[OF ok r] have kr: "known ?I ?M r" by simp
  from known_nonneg[OF ok kr] have nn: "0 \<le> nHeight (?M r)" .
  from TraceBack_walk[OF ok kc nn refl] obtain x where
    tb: "TraceBack ?M (nHeight (?M r)) c = Some (Some x)"
    and wk: "walk ?M (nat (nHeight (?M c) - nHeight (?M r))) c = Some x"
    by blast
  from c r le tb have "ValidateSyncCheckpoint w h =
               Some (False, if GetBlockHash (?M x) \<noteq> h
                            then w\<lparr>hashInvalidCheckpoint := h\<rparr> else w)"
    by (simp add: ValidateSyncCheckpoint_def)
  with wk show ?thesis by blast
qed

text \<open>The received block is higher: the second branch.\<close>

lemma Validate_newer:
  assumes ok: "block_tree_ok (mapBlockIndex w) (memBlockIndex w)"
    and c: "mapBlockIndex w (hashSyncCheckpoint w) = Some c"
    and r: "mapBlockIndex w h = Some r"
    and gt: "nHeight (memBlockIndex w r) > nHeight (memBlockIndex w c)"
  shows "\<exists>x. walk (memBlockIndex w)
                (nat (nHeight (memBlockIndex w r) - nHeight (memBlockIndex w c))) r = Some x \<and>
             ValidateSyncCheckpoint w h =
               Some (if GetBlockHash (memBlockIndex w x) \<noteq> hashSyncCheckpoint w
                     then (False, w\<lparr>hashInvalidCheckpoint := h\<rparr>) else (True, w))"
proof -
  let ?I = "mapBlockIndex w" and ?M = "memBlockIndex w"
  from known_lookup[OF ok c] have kc: "known ?I ?M c" by simp
  from known_lookup[OF ok r] have kr: "known ?I ?M r" by simp
  from known_nonneg[OF ok kc] have nn: "0 \<le> nHeight (?M c)" .
  from TraceBack_walk[OF ok kr nn refl] obtain x where
    tb: "TraceBack ?M (nHeight (?M c)) r = Some (Some x)"
    and wk: "walk ?M (nat (nHeight (?M r) - nHeight (?M c))) r = Some x"
    by blast
  from c r gt tb have "ValidateSyncCheckpoint w h =
               Some (if GetBlockHash (?M x) \<noteq> hashSyncCheckpoint w
                     then (False, w\<lparr>hashInvalidCheckpoint := h\<rparr>) else (True, w))"
    by (simp add: ValidateSyncCheckpoint_def)
  with wk show ?thesis by blast
qed

text \<open>Two different blocks, neither an ancestor of the other: the received hash is
  recorded as invalid, whichever of the two is higher.\<close>

lemma Validate_conflict:
  assumes ok: "block_tree_ok (mapBlockIndex w) (memBlockIndex w)"
    and c: "mapBlockIndex w (hashSyncCheckpoint w) = Some c"
    and r: "mapBlockIndex w h = Some r"
    and ne: "c \<noteq> r"
    and nrc: "\<not> strict_ancestor (memBlockIndex w) r c"
    and ncr: "\<not> strict_ancestor (memBlockIndex w) c r"
  shows "ValidateSyncCheckpoint w h = Some (False, w\<lparr>hashInvalidCheckpoint := h\<rparr>)"
proof -
  let ?I = "mapBlockIndex w" and ?M = "memBlockIndex w"
  from known_lookup[OF ok c] have kc: "known ?I ?M c" by simp
  from known_lookup[OF ok r] have kr: "known ?I ?M r" by simp
  show ?thesis
  proof (cases "nHeight (?M r) \<le> nHeight (?M c)")
    case True
    from Validate_older[OF ok c r True] obtain x where
      wk: "walk ?M (nat (nHeight (?M c) - nHeight (?M r))) c = Some x"
      and v: "ValidateSyncCheckpoint w h =
               Some (False, if GetBlockHash (?M x) \<noteq> h then w\<lparr>hashInvalidCheckpoint := h\<rparr> else w)"
      by blast
    have "x \<noteq> r"
    proof (cases "nat (nHeight (?M c) - nHeight (?M r))")
      case 0
      with wk ne show ?thesis by simp
    next
      case (Suc k)
      with wk nrc show ?thesis by (auto simp: strict_ancestor_def)
    qed
    moreover from walk_known[OF ok kc wk] have "known ?I ?M x" by simp
    ultimately have "GetBlockHash (?M x) \<noteq> h" using r by (auto simp: known_def)
    with v show ?thesis by simp
  next
    case False
    then have gt: "nHeight (?M r) > nHeight (?M c)" by simp
    from Validate_newer[OF ok c r gt] obtain x where
      wk: "walk ?M (nat (nHeight (?M r) - nHeight (?M c))) r = Some x"
      and v: "ValidateSyncCheckpoint w h =
               Some (if GetBlockHash (?M x) \<noteq> hashSyncCheckpoint w
                     then (False, w\<lparr>hashInvalidCheckpoint := h\<rparr>) else (True, w))"
      by blast
    from gt obtain k where "nat (nHeight (?M r) - nHeight (?M c)) = Suc k"
      by (cases "nat (nHeight (?M r) - nHeight (?M c))") auto
    with wk ncr have "x \<noteq> c" by (auto simp: strict_ancestor_def)
    moreover from walk_known[OF ok kr wk] have "known ?I ?M x" by simp
    ultimately have "GetBlockHash (?M x) \<noteq> hashSyncCheckpoint w" using c by (auto simp: known_def)
    with v show ?thesis by simp
  qed
qed

section \<open>The example tree\<close>

lemma ex_tree_ok: "block_tree_ok ex_index ex_mem"
  by (simp add: block_tree_ok_def ex_index_def ex_mem_def)

lemma ex_w_tree_ok: "block_tree_ok (mapBlockIndex ex_w) (memBlockIndex ex_w)"
  by (simp add: ex_w_def ex_tree_ok)

lemma ex_anc_0_2: "strict_ancestor ex_mem 0 2"
  unfolding strict_ancestor_def by (rule exI[of _ 1]) (simp add: ex_mem_def)

text \<open>An ancestor is lower, and it is the block that many steps back: this decides
  \<open>strict_ancestor\<close> on a concrete tree.\<close>

lemma strict_ancestor_walk:
  assumes ok: "block_tree_ok I M" and k: "known I M a" and anc: "strict_ancestor M b a"
  shows "nHeight (M b) < nHeight (M a) \<and>
         walk M (nat (nHeight (M a) - nHeight (M b))) a = Some b"
proof -
  from anc obtain n where wk: "walk M (Suc n) a = Some b" by (auto simp: strict_ancestor_def)
  from walk_known[OF ok k wk] have "nHeight (M b) = nHeight (M a) - int (Suc n)" by simp
  then have "nat (nHeight (M a) - nHeight (M b)) = Suc n" "nHeight (M b) < nHeight (M a)"
    by simp_all
  with wk show ?thesis by simp
qed

lemma ex_not_anc_3_2: "\<not> strict_ancestor ex_mem 3 2"
proof
  assume "strict_ancestor ex_mem 3 2"
  from strict_ancestor_walk[OF ex_tree_ok _ this]
  show False by (simp add: known_def ex_index_def ex_mem_def)
qed

lemma ex_not_anc_2_3: "\<not> strict_ancestor ex_mem 2 3"
proof
  assume "strict_ancestor ex_mem 2 3"
  from strict_ancestor_walk[OF ex_tree_ok _ this]
  show False by (simp add: known_def ex_index_def ex_mem_def)
qed

section \<open>Ancestors and descendants of the current checkpoint\<close>

text \<open>
  C1. Blocks \<open>a\<close> and \<open>b\<close> are in a well-formed index under the hashes \<open>hashA\<close> and
  \<open>hashB\<close>, and \<open>b\<close> is a strict ancestor of \<open>a\<close>. With \<open>hashA\<close> as the current
  sync-checkpoint, \<open>ValidateSyncCheckpoint hashB\<close> returns false and changes nothing,
  \<open>hashInvalidCheckpoint\<close> included (the older checkpoint is ignored). With \<open>hashB\<close>
  as the current sync-checkpoint, \<open>ValidateSyncCheckpoint hashA\<close> returns true. Both
  calls return: the loops end.
\<close>

theorem validate_ancestor_descendant:
  assumes ok: "block_tree_ok (mapBlockIndex w) (memBlockIndex w)"
    and a: "mapBlockIndex w hashA = Some a"
    and b: "mapBlockIndex w hashB = Some b"
    and anc: "strict_ancestor (memBlockIndex w) b a"
  shows "ValidateSyncCheckpoint (w\<lparr>hashSyncCheckpoint := hashA\<rparr>) hashB
           = Some (False, w\<lparr>hashSyncCheckpoint := hashA\<rparr>)
       \<and> ValidateSyncCheckpoint (w\<lparr>hashSyncCheckpoint := hashB\<rparr>) hashA
           = Some (True, w\<lparr>hashSyncCheckpoint := hashB\<rparr>)"
proof -
  let ?M = "memBlockIndex w"
  from anc obtain n where wk: "walk ?M (Suc n) a = Some b"
    by (auto simp: strict_ancestor_def)
  from ancestor_height[OF ok a wk]
  have d: "nat (nHeight (?M a) - nHeight (?M b)) = Suc n" .
  then have lt: "nHeight (?M b) < nHeight (?M a)" by linarith
  from known_lookup[OF ok b] have hb: "GetBlockHash (?M b) = hashB" by simp
  let ?wA = "w\<lparr>hashSyncCheckpoint := hashA\<rparr>"
  let ?wB = "w\<lparr>hashSyncCheckpoint := hashB\<rparr>"
  have "\<exists>x. walk (memBlockIndex ?wA)
               (nat (nHeight (memBlockIndex ?wA a) - nHeight (memBlockIndex ?wA b))) a = Some x \<and>
             ValidateSyncCheckpoint ?wA hashB =
               Some (False, if GetBlockHash (memBlockIndex ?wA x) \<noteq> hashB
                            then ?wA\<lparr>hashInvalidCheckpoint := hashB\<rparr> else ?wA)"
    by (rule Validate_older) (use ok a b lt in simp_all)
  with d wk hb have older: "ValidateSyncCheckpoint ?wA hashB = Some (False, ?wA)" by auto
  have "\<exists>x. walk (memBlockIndex ?wB)
               (nat (nHeight (memBlockIndex ?wB a) - nHeight (memBlockIndex ?wB b))) a = Some x \<and>
             ValidateSyncCheckpoint ?wB hashA =
               Some (if GetBlockHash (memBlockIndex ?wB x) \<noteq> hashSyncCheckpoint ?wB
                     then (False, ?wB\<lparr>hashInvalidCheckpoint := hashA\<rparr>) else (True, ?wB))"
    by (rule Validate_newer) (use ok a b lt in simp_all)
  with d wk hb have newer: "ValidateSyncCheckpoint ?wB hashA = Some (True, ?wB)" by auto
  from older newer show ?thesis by simp
qed

text \<open>In the example: the block of hash 12 (height 2) and genesis (hash 10).\<close>

theorem validate_ancestor_descendant_witness:
  "block_tree_ok (mapBlockIndex ex_w) (memBlockIndex ex_w) \<and>
   mapBlockIndex ex_w 12 = Some 2 \<and> mapBlockIndex ex_w 10 = Some 0 \<and>
   strict_ancestor (memBlockIndex ex_w) 0 2 \<and>
   ValidateSyncCheckpoint (ex_w\<lparr>hashSyncCheckpoint := 12\<rparr>) 10
      = Some (False, ex_w\<lparr>hashSyncCheckpoint := 12\<rparr>) \<and>
   ValidateSyncCheckpoint (ex_w\<lparr>hashSyncCheckpoint := 10\<rparr>) 12
      = Some (True, ex_w\<lparr>hashSyncCheckpoint := 10\<rparr>)"
proof -
  have a: "mapBlockIndex ex_w 12 = Some 2" by (simp add: ex_w_def ex_index_def)
  have b: "mapBlockIndex ex_w 10 = Some 0" by (simp add: ex_w_def ex_index_def)
  have anc: "strict_ancestor (memBlockIndex ex_w) 0 2" by (simp add: ex_w_def ex_anc_0_2)
  from validate_ancestor_descendant[OF ex_w_tree_ok a b anc] ex_w_tree_ok a b anc
  show ?thesis by simp
qed

section \<open>Checkpoints on divergent branches\<close>

text \<open>
  C2. Blocks \<open>a\<close> and \<open>b\<close> are in a well-formed index under the hashes \<open>hashA\<close> and
  \<open>hashB\<close>; they are different blocks and neither is an ancestor of the other. With
  either hash as the current sync-checkpoint, \<open>ValidateSyncCheckpoint\<close> on the other
  returns false and sets \<open>hashInvalidCheckpoint\<close> to the hash it was given; nothing
  else changes.
\<close>

theorem validate_divergent:
  assumes ok: "block_tree_ok (mapBlockIndex w) (memBlockIndex w)"
    and a: "mapBlockIndex w hashA = Some a"
    and b: "mapBlockIndex w hashB = Some b"
    and ne: "a \<noteq> b"
    and nab: "\<not> strict_ancestor (memBlockIndex w) a b"
    and nba: "\<not> strict_ancestor (memBlockIndex w) b a"
  shows "ValidateSyncCheckpoint (w\<lparr>hashSyncCheckpoint := hashA\<rparr>) hashB
           = Some (False, w\<lparr>hashSyncCheckpoint := hashA, hashInvalidCheckpoint := hashB\<rparr>)
       \<and> ValidateSyncCheckpoint (w\<lparr>hashSyncCheckpoint := hashB\<rparr>) hashA
           = Some (False, w\<lparr>hashSyncCheckpoint := hashB, hashInvalidCheckpoint := hashA\<rparr>)"
proof
  show "ValidateSyncCheckpoint (w\<lparr>hashSyncCheckpoint := hashA\<rparr>) hashB
           = Some (False, w\<lparr>hashSyncCheckpoint := hashA, hashInvalidCheckpoint := hashB\<rparr>)"
    by (rule Validate_conflict[where c = a and r = b]) (use assms in simp_all)
  show "ValidateSyncCheckpoint (w\<lparr>hashSyncCheckpoint := hashB\<rparr>) hashA
           = Some (False, w\<lparr>hashSyncCheckpoint := hashB, hashInvalidCheckpoint := hashA\<rparr>)"
    by (rule Validate_conflict[where c = b and r = a]) (use assms in simp_all)
qed

text \<open>In the example: the block of hash 12 (height 2) and the fork of hash 13 (height 1).\<close>

theorem validate_divergent_witness:
  "block_tree_ok (mapBlockIndex ex_w) (memBlockIndex ex_w) \<and>
   mapBlockIndex ex_w 12 = Some 2 \<and> mapBlockIndex ex_w 13 = Some 3 \<and> (2::addr) \<noteq> 3 \<and>
   \<not> strict_ancestor (memBlockIndex ex_w) 2 3 \<and> \<not> strict_ancestor (memBlockIndex ex_w) 3 2 \<and>
   ValidateSyncCheckpoint (ex_w\<lparr>hashSyncCheckpoint := 12\<rparr>) 13
      = Some (False, ex_w\<lparr>hashSyncCheckpoint := 12, hashInvalidCheckpoint := 13\<rparr>) \<and>
   ValidateSyncCheckpoint (ex_w\<lparr>hashSyncCheckpoint := 13\<rparr>) 12
      = Some (False, ex_w\<lparr>hashSyncCheckpoint := 13, hashInvalidCheckpoint := 12\<rparr>)"
proof -
  have a: "mapBlockIndex ex_w 12 = Some 2" by (simp add: ex_w_def ex_index_def)
  have b: "mapBlockIndex ex_w 13 = Some 3" by (simp add: ex_w_def ex_index_def)
  have ne: "(2::addr) \<noteq> 3" by simp
  have nab: "\<not> strict_ancestor (memBlockIndex ex_w) 2 3" by (simp add: ex_w_def ex_not_anc_2_3)
  have nba: "\<not> strict_ancestor (memBlockIndex ex_w) 3 2" by (simp add: ex_w_def ex_not_anc_3_2)
  from validate_divergent[OF ex_w_tree_ok a b ne nab nba] ex_w_tree_ok a b nab nba
  show ?thesis by simp
qed

section \<open>WriteSyncCheckpoint\<close>

lemma Write_fail:
  "\<not> durable_write_ok x (pblocktree w) h \<Longrightarrow>
   \<exists>d. WriteSyncCheckpoint x h w = (False, w\<lparr>pblocktree := d\<rparr>)"
  by (auto simp: durable_write_ok_def WriteSyncCheckpoint_def split: prod.splits)

lemma Write_ok:
  "durable_write_ok x (pblocktree w) h \<Longrightarrow>
   WriteSyncCheckpoint x h w =
     (True, w\<lparr>pblocktree := snd (txdb_Sync x (snd (txdb_WriteSyncCheckpoint x (pblocktree w) h))),
              hashSyncCheckpoint := h\<rparr>)"
  by (auto simp: durable_write_ok_def WriteSyncCheckpoint_def split: prod.splits)

lemma Write_result:
  "WriteSyncCheckpoint x h w = (b, w') \<Longrightarrow> b = durable_write_ok x (pblocktree w) h"
  by (auto simp: durable_write_ok_def WriteSyncCheckpoint_def split: prod.splits if_splits)

lemma Write_sent: "WriteSyncCheckpoint x h w = (b, w') \<Longrightarrow> sent w' = sent w"
  by (auto simp: WriteSyncCheckpoint_def split: prod.splits if_splits)

section \<open>Evaluations on the example\<close>

lemma ex_check_signature: "CheckSignature ex_x (ex_msg 12) = Inr (True, ex_msg 12)"
  by (simp add: CheckSignature_def ex_x_def ex_msg_def)

lemma ex_check_signature_nosync: "CheckSignature ex_x_nosync (ex_msg 12) = Inr (True, ex_msg 12)"
  by (simp add: CheckSignature_def ex_x_nosync_def ex_x_def ex_msg_def)

lemma ex_validate_12:
  "ValidateSyncCheckpoint
     (ex_w\<lparr>hashPendingCheckpoint := 12, checkpointMessagePending := ex_msg 12\<rparr>) 12
   = Some (True, ex_w\<lparr>hashPendingCheckpoint := 12, checkpointMessagePending := ex_msg 12\<rparr>)"
  by (simp add: ValidateSyncCheckpoint_def ex_w_def ex_index_def ex_mem_def TraceBack.simps)

lemma ex_validate_13:
  "ValidateSyncCheckpoint
     (ex_w\<lparr>hashSyncCheckpoint := 12, hashPendingCheckpoint := 13,
           checkpointMessagePending := ex_msg 13\<rparr>) 13
   = Some (False, ex_w\<lparr>hashSyncCheckpoint := 12, hashPendingCheckpoint := 13,
                       checkpointMessagePending := ex_msg 13, hashInvalidCheckpoint := 13\<rparr>)"
  by (simp add: ValidateSyncCheckpoint_def ex_w_def ex_index_def ex_mem_def TraceBack.simps)

section \<open>The same checkpoint a second time\<close>

text \<open>
  C3. A message passes \<open>CheckSignature\<close>, its hash is the current sync-checkpoint, and
  the block of that hash is in the index under that hash. Then \<open>ProcessSyncCheckpoint\<close>
  returns false and every global is as before: current and pending hash, current and
  pending message, invalid hash and all the rest. The heights are equal, so the call
  goes through the first branch of \<open>ValidateSyncCheckpoint\<close>, finds the same hash and
  ignores the checkpoint.
\<close>

theorem process_same_checkpoint_ignored:
  assumes sig: "CheckSignature x m = Inr (True, m')"
    and cur: "hashSyncCheckpoint w = hashCheckpoint m'"
    and kn: "mapBlockIndex w (hashCheckpoint m') = Some a"
    and hk: "GetBlockHash (memBlockIndex w a) = hashCheckpoint m'"
  shows "ProcessSyncCheckpoint x m pfrom w = Some (Inr (False, m', w))"
proof -
  have "TraceBack (memBlockIndex w) (nHeight (memBlockIndex w a)) a = Some (Some a)"
    by (subst TraceBack.simps) simp
  with cur kn hk have "ValidateSyncCheckpoint w (hashCheckpoint m') = Some (False, w)"
    by (simp add: ValidateSyncCheckpoint_def)
  with sig kn show ?thesis by (simp add: ProcessSyncCheckpoint_def)
qed

text \<open>In the example: the checkpoint of hash 12 is current, with its message, and the
  message arrives again from peer 7.\<close>

theorem process_same_checkpoint_ignored_witness:
  "CheckSignature ex_x (ex_msg 12) = Inr (True, ex_msg 12) \<and>
   hashSyncCheckpoint (ex_w\<lparr>hashSyncCheckpoint := 12, checkpointMessage := ex_msg 12\<rparr>)
     = hashCheckpoint (ex_msg 12) \<and>
   mapBlockIndex (ex_w\<lparr>hashSyncCheckpoint := 12, checkpointMessage := ex_msg 12\<rparr>)
     (hashCheckpoint (ex_msg 12)) = Some 2 \<and>
   GetBlockHash (memBlockIndex (ex_w\<lparr>hashSyncCheckpoint := 12, checkpointMessage := ex_msg 12\<rparr>) 2)
     = hashCheckpoint (ex_msg 12) \<and>
   ProcessSyncCheckpoint ex_x (ex_msg 12) (Some 7)
     (ex_w\<lparr>hashSyncCheckpoint := 12, checkpointMessage := ex_msg 12\<rparr>)
     = Some (Inr (False, ex_msg 12, ex_w\<lparr>hashSyncCheckpoint := 12, checkpointMessage := ex_msg 12\<rparr>))"
proof -
  let ?w = "ex_w\<lparr>hashSyncCheckpoint := 12, checkpointMessage := ex_msg 12\<rparr>"
  have cur: "hashSyncCheckpoint ?w = hashCheckpoint (ex_msg 12)" by (simp add: ex_msg_def)
  have kn: "mapBlockIndex ?w (hashCheckpoint (ex_msg 12)) = Some 2"
    by (simp add: ex_msg_def ex_w_def ex_index_def)
  have hk: "GetBlockHash (memBlockIndex ?w 2) = hashCheckpoint (ex_msg 12)"
    by (simp add: ex_msg_def ex_w_def ex_mem_def)
  from process_same_checkpoint_ignored[OF ex_check_signature cur kn hk, of "Some 7"]
    ex_check_signature cur kn hk
  show ?thesis by simp
qed

section \<open>A failed database write\<close>

text \<open>
  C6. \<open>WriteSyncCheckpoint\<close> leaves \<open>hashSyncCheckpoint\<close> as it was unless the write
  and the commit on \<^verbatim>\<open>pblocktree\<close> both returned true. When one of them returns false:
  \<open>WriteSyncCheckpoint\<close> returns false; \<open>ProcessSyncCheckpoint\<close>, called with a message
  that passes the signature check, whose block is known and accepted by
  \<open>ValidateSyncCheckpoint\<close>, returns false; \<open>AcceptPendingSyncCheckpoint\<close>, called
  with a pending hash whose block is known and accepted, returns false. In all three the
  globals after the call are those before it, but for the database: the current
  checkpoint hash and the current message are unchanged.
\<close>

theorem persistence_failure_atomic:
  "(hashSyncCheckpoint (snd (WriteSyncCheckpoint x h w)) \<noteq> hashSyncCheckpoint w \<longrightarrow>
      durable_write_ok x (pblocktree w) h)
   \<and> (\<not> durable_write_ok x (pblocktree w) h \<longrightarrow>
        (\<exists>d. WriteSyncCheckpoint x h w = (False, w\<lparr>pblocktree := d\<rparr>))
      \<and> (CheckSignature x m = Inr (True, m') \<and> hashCheckpoint m' = h \<and>
         mapBlockIndex w h \<noteq> None \<and> ValidateSyncCheckpoint w h = Some (True, w1) \<longrightarrow>
           (\<exists>d. ProcessSyncCheckpoint x m pfrom w
                  = Some (Inr (False, m', w\<lparr>pblocktree := d\<rparr>))))
      \<and> (hashPendingCheckpoint w = h \<and> h \<noteq> 0 \<and>
         mapBlockIndex w h \<noteq> None \<and> ValidateSyncCheckpoint w h = Some (True, w1) \<longrightarrow>
           (\<exists>d. AcceptPendingSyncCheckpoint x w = Some (False, w\<lparr>pblocktree := d\<rparr>))))"
proof (intro conjI impI)
  assume moved: "hashSyncCheckpoint (snd (WriteSyncCheckpoint x h w)) \<noteq> hashSyncCheckpoint w"
  show "durable_write_ok x (pblocktree w) h"
  proof (rule ccontr)
    assume "\<not> durable_write_ok x (pblocktree w) h"
    from Write_fail[OF this] obtain d where
      "WriteSyncCheckpoint x h w = (False, w\<lparr>pblocktree := d\<rparr>)" by blast
    with moved show False by simp
  qed
next
  assume fail: "\<not> durable_write_ok x (pblocktree w) h"
  from Write_fail[OF fail] obtain d where
    d: "WriteSyncCheckpoint x h w = (False, w\<lparr>pblocktree := d\<rparr>)" by blast
  then show "\<exists>d. WriteSyncCheckpoint x h w = (False, w\<lparr>pblocktree := d\<rparr>)" by blast
  {
    assume a: "CheckSignature x m = Inr (True, m') \<and> hashCheckpoint m' = h \<and>
        mapBlockIndex w h \<noteq> None \<and> ValidateSyncCheckpoint w h = Some (True, w1)"
    then have "w1 = w" by (auto dest: Validate_True_same)
    with a d have "ProcessSyncCheckpoint x m pfrom w = Some (Inr (False, m', w\<lparr>pblocktree := d\<rparr>))"
      by (auto simp: ProcessSyncCheckpoint_def)
    then show "\<exists>d. ProcessSyncCheckpoint x m pfrom w = Some (Inr (False, m', w\<lparr>pblocktree := d\<rparr>))"
      by blast
  }
  {
    assume a: "hashPendingCheckpoint w = h \<and> h \<noteq> 0 \<and>
        mapBlockIndex w h \<noteq> None \<and> ValidateSyncCheckpoint w h = Some (True, w1)"
    then have "w1 = w" by (auto dest: Validate_True_same)
    with a d have "AcceptPendingSyncCheckpoint x w = Some (False, w\<lparr>pblocktree := d\<rparr>)"
      by (auto simp: AcceptPendingSyncCheckpoint_def)
    then show "\<exists>d. AcceptPendingSyncCheckpoint x w = Some (False, w\<lparr>pblocktree := d\<rparr>)"
      by blast
  }
qed

text \<open>
  In the example the checkpoint of hash 12 is pending and its message arrives. With the
  database that works, \<open>WriteSyncCheckpoint\<close> moves the current hash from 10 to 12. With
  the database whose commit fails, all three calls return false and the current hash
  stays 10.
\<close>

theorem persistence_failure_atomic_witness:
  "hashSyncCheckpoint (snd (WriteSyncCheckpoint ex_x 12 ex_w)) \<noteq> hashSyncCheckpoint ex_w \<and>
   durable_write_ok ex_x (pblocktree ex_w) 12 \<and>
   \<not> durable_write_ok ex_x_nosync
       (pblocktree (ex_w\<lparr>hashPendingCheckpoint := 12, checkpointMessagePending := ex_msg 12\<rparr>)) 12 \<and>
   CheckSignature ex_x_nosync (ex_msg 12) = Inr (True, ex_msg 12) \<and>
   hashCheckpoint (ex_msg 12) = 12 \<and>
   hashPendingCheckpoint (ex_w\<lparr>hashPendingCheckpoint := 12, checkpointMessagePending := ex_msg 12\<rparr>) = 12 \<and>
   (12 :: uint256) \<noteq> 0 \<and>
   mapBlockIndex (ex_w\<lparr>hashPendingCheckpoint := 12, checkpointMessagePending := ex_msg 12\<rparr>) 12 \<noteq> None \<and>
   ValidateSyncCheckpoint (ex_w\<lparr>hashPendingCheckpoint := 12, checkpointMessagePending := ex_msg 12\<rparr>) 12
     = Some (True, ex_w\<lparr>hashPendingCheckpoint := 12, checkpointMessagePending := ex_msg 12\<rparr>) \<and>
   (\<exists>d. WriteSyncCheckpoint ex_x_nosync 12
           (ex_w\<lparr>hashPendingCheckpoint := 12, checkpointMessagePending := ex_msg 12\<rparr>)
         = (False, ex_w\<lparr>hashPendingCheckpoint := 12, checkpointMessagePending := ex_msg 12,
                         pblocktree := d\<rparr>)) \<and>
   (\<exists>d. ProcessSyncCheckpoint ex_x_nosync (ex_msg 12) (Some 7)
           (ex_w\<lparr>hashPendingCheckpoint := 12, checkpointMessagePending := ex_msg 12\<rparr>)
         = Some (Inr (False, ex_msg 12,
               ex_w\<lparr>hashPendingCheckpoint := 12, checkpointMessagePending := ex_msg 12,
                     pblocktree := d\<rparr>))) \<and>
   (\<exists>d. AcceptPendingSyncCheckpoint ex_x_nosync
           (ex_w\<lparr>hashPendingCheckpoint := 12, checkpointMessagePending := ex_msg 12\<rparr>)
         = Some (False, ex_w\<lparr>hashPendingCheckpoint := 12, checkpointMessagePending := ex_msg 12,
                              pblocktree := d\<rparr>))"
proof -
  let ?w = "ex_w\<lparr>hashPendingCheckpoint := 12, checkpointMessagePending := ex_msg 12\<rparr>"
  have moved: "hashSyncCheckpoint (snd (WriteSyncCheckpoint ex_x 12 ex_w)) \<noteq> hashSyncCheckpoint ex_w"
    by (simp add: WriteSyncCheckpoint_def ex_x_def ex_w_def)
  have fail: "\<not> durable_write_ok ex_x_nosync (pblocktree ?w) 12"
    by (simp add: durable_write_ok_def ex_x_nosync_def ex_x_def)
  have h: "hashCheckpoint (ex_msg 12) = 12" by (simp add: ex_msg_def)
  have p: "hashPendingCheckpoint ?w = 12" by simp
  have kn: "mapBlockIndex ?w 12 \<noteq> None" by (simp add: ex_w_def ex_index_def)
  from persistence_failure_atomic[of ex_x 12 ex_w] moved
  have ok: "durable_write_ok ex_x (pblocktree ex_w) 12" by blast
  from persistence_failure_atomic[of ex_x_nosync 12 ?w "ex_msg 12" "ex_msg 12" ?w "Some 7"]
    fail ex_check_signature_nosync h p kn ex_validate_12
  have "(\<exists>d. WriteSyncCheckpoint ex_x_nosync 12 ?w = (False, ?w\<lparr>pblocktree := d\<rparr>)) \<and>
        (\<exists>d. ProcessSyncCheckpoint ex_x_nosync (ex_msg 12) (Some 7) ?w
              = Some (Inr (False, ex_msg 12, ?w\<lparr>pblocktree := d\<rparr>))) \<and>
        (\<exists>d. AcceptPendingSyncCheckpoint ex_x_nosync ?w = Some (False, ?w\<lparr>pblocktree := d\<rparr>))"
    by simp
  with moved ok fail ex_check_signature_nosync h p kn ex_validate_12
  show ?thesis by simp
qed

section \<open>A pending checkpoint that fails validation\<close>

text \<open>
  C10. The pending hash is not null, its block is in the index, and
  \<open>ValidateSyncCheckpoint\<close> returns false on it, leaving the globals \<open>w1\<close>. Then
  \<open>AcceptPendingSyncCheckpoint\<close> returns false with the pending hash null and the
  pending message null, on top of \<open>w1\<close>; and \<open>w1\<close> has the current checkpoint hash and
  the current message of the start.
\<close>

theorem accept_pending_invalid_clears:
  assumes pend: "hashPendingCheckpoint w \<noteq> 0"
    and kn: "mapBlockIndex w (hashPendingCheckpoint w) = Some a"
    and inv: "ValidateSyncCheckpoint w (hashPendingCheckpoint w) = Some (False, w1)"
  shows "AcceptPendingSyncCheckpoint x w =
           Some (False, w1\<lparr>hashPendingCheckpoint := 0, checkpointMessagePending := SetNull\<rparr>)
       \<and> hashSyncCheckpoint w1 = hashSyncCheckpoint w
       \<and> checkpointMessage w1 = checkpointMessage w"
proof -
  from Validate_result[OF inv] have "hashSyncCheckpoint w1 = hashSyncCheckpoint w"
    "checkpointMessage w1 = checkpointMessage w" by auto
  moreover from pend kn inv have "AcceptPendingSyncCheckpoint x w =
           Some (False, w1\<lparr>hashPendingCheckpoint := 0, checkpointMessagePending := SetNull\<rparr>)"
    by (simp add: AcceptPendingSyncCheckpoint_def)
  ultimately show ?thesis by simp
qed

text \<open>In the example: the checkpoint of hash 12 is current and the fork block of hash 13
  is pending.\<close>

theorem accept_pending_invalid_clears_witness:
  "hashPendingCheckpoint (ex_w\<lparr>hashSyncCheckpoint := 12, hashPendingCheckpoint := 13,
           checkpointMessagePending := ex_msg 13\<rparr>) \<noteq> 0 \<and>
   mapBlockIndex (ex_w\<lparr>hashSyncCheckpoint := 12, hashPendingCheckpoint := 13,
           checkpointMessagePending := ex_msg 13\<rparr>) 13 = Some 3 \<and>
   ValidateSyncCheckpoint (ex_w\<lparr>hashSyncCheckpoint := 12, hashPendingCheckpoint := 13,
           checkpointMessagePending := ex_msg 13\<rparr>) 13
     = Some (False, ex_w\<lparr>hashSyncCheckpoint := 12, hashPendingCheckpoint := 13,
                       checkpointMessagePending := ex_msg 13, hashInvalidCheckpoint := 13\<rparr>) \<and>
   AcceptPendingSyncCheckpoint ex_x (ex_w\<lparr>hashSyncCheckpoint := 12, hashPendingCheckpoint := 13,
           checkpointMessagePending := ex_msg 13\<rparr>)
     = Some (False, ex_w\<lparr>hashSyncCheckpoint := 12, hashPendingCheckpoint := 0,
                       checkpointMessagePending := SetNull, hashInvalidCheckpoint := 13\<rparr>)"
proof -
  let ?w = "ex_w\<lparr>hashSyncCheckpoint := 12, hashPendingCheckpoint := 13,
           checkpointMessagePending := ex_msg 13\<rparr>"
  have pend: "hashPendingCheckpoint ?w \<noteq> 0" by simp
  have kn: "mapBlockIndex ?w (hashPendingCheckpoint ?w) = Some 3"
    by (simp add: ex_w_def ex_index_def)
  have inv: "ValidateSyncCheckpoint ?w (hashPendingCheckpoint ?w)
     = Some (False, ?w\<lparr>hashInvalidCheckpoint := 13\<rparr>)"
    using ex_validate_13 by simp
  from accept_pending_invalid_clears[OF pend kn inv, of ex_x] pend kn inv
  show ?thesis by simp
qed

section \<open>The master sends a checkpoint\<close>

text \<open>\<open>ProcessSyncCheckpoint\<close> sends nothing, whatever it returns.\<close>

lemma Process_sent:
  assumes "ProcessSyncCheckpoint x m pfrom w = Some (Inr (b, this, w'))"
  shows "sent w' = sent w"
proof (cases "CheckSignature x m")
  case (Inl f)
  with assms show ?thesis by (simp add: ProcessSyncCheckpoint_def)
next
  case (Inr r)
  obtain checked m1 where r: "r = (checked, m1)" by (cases r)
  show ?thesis
  proof (cases "checked \<and> mapBlockIndex w (hashCheckpoint m1) \<noteq> None")
    case False
    with assms Inr r show ?thesis
      by (auto simp: ProcessSyncCheckpoint_def split: if_splits)
  next
    case True
    with assms Inr r obtain valid w1 where
      v: "ValidateSyncCheckpoint w (hashCheckpoint m1) = Some (valid, w1)"
      by (cases "ValidateSyncCheckpoint w (hashCheckpoint m1)") (auto simp: ProcessSyncCheckpoint_def)
    obtain written w2 where wr: "WriteSyncCheckpoint x (hashCheckpoint m1) w1 = (written, w2)"
      by (cases "WriteSyncCheckpoint x (hashCheckpoint m1) w1")
    from assms Inr r True v wr have "sent w' = sent w1 \<or> sent w' = sent w2"
      by (auto simp: ProcessSyncCheckpoint_def split: if_splits)
    with Validate_sent[OF v] Write_sent[OF wr] show ?thesis by auto
  qed
qed

text \<open>Once the key steps have given a signature, \<open>SendSyncCheckpoint\<close> is the call of
  \<open>ProcessSyncCheckpoint\<close> on the signed message followed by the relay.\<close>

lemma Send_signed:
  assumes "master_signature x (strMasterPrivKey w) (Serialize x h) = Some sig"
  shows "SendSyncCheckpoint x h w =
      (case ProcessSyncCheckpoint x
              (SetNull\<lparr>hashCheckpoint := h, vchMsg := Serialize x h, vchSig := sig\<rparr>) None w of
         None \<Rightarrow> None
       | Some (Inl f) \<Rightarrow> Some (Inl f)
       | Some (Inr (processed, this, w1)) \<Rightarrow>
           if \<not> processed then Some (Inr (False, w1))
           else (case g_connman w1 of
                   None \<Rightarrow> Some (Inl NullPointer)
                 | Some vNodes \<Rightarrow> Some (Inr (True, fold (RelayTo this) vNodes w1))))"
  using assms
  by (auto simp: SendSyncCheckpoint_def master_signature_def Let_def
           split: option.splits if_splits)

lemma Send_unsigned:
  assumes "master_signature x (strMasterPrivKey w) (Serialize x h) = None"
  shows "SendSyncCheckpoint x h w = Some (Inr (False, w))"
  using assms
  by (auto simp: SendSyncCheckpoint_def master_signature_def Let_def
           split: option.splits if_splits)

text \<open>
  C8. In \<open>SendSyncCheckpoint\<close>: when the master key is missing, does not decode, is not
  valid or does not sign, the call returns false and no global changes, so nothing is
  sent. When the key signs and \<open>ProcessSyncCheckpoint\<close> returns false on the signed
  message, the call returns false and nothing has been sent. And whenever the call
  returns with something sent, \<open>ProcessSyncCheckpoint\<close> had returned true on the
  signed message.
\<close>

theorem send_relays_only_after_accept:
  "(master_signature x (strMasterPrivKey w) (Serialize x h) = None \<longrightarrow>
      SendSyncCheckpoint x h w = Some (Inr (False, w)))
   \<and> (\<forall>sig this w1.
        master_signature x (strMasterPrivKey w) (Serialize x h) = Some sig \<and>
        ProcessSyncCheckpoint x
          (SetNull\<lparr>hashCheckpoint := h, vchMsg := Serialize x h, vchSig := sig\<rparr>) None w
          = Some (Inr (False, this, w1)) \<longrightarrow>
        SendSyncCheckpoint x h w = Some (Inr (False, w1)) \<and> sent w1 = sent w)
   \<and> (\<forall>b w'.
        SendSyncCheckpoint x h w = Some (Inr (b, w')) \<and> sent w' \<noteq> sent w \<longrightarrow>
        (\<exists>sig this w1.
           master_signature x (strMasterPrivKey w) (Serialize x h) = Some sig \<and>
           ProcessSyncCheckpoint x
             (SetNull\<lparr>hashCheckpoint := h, vchMsg := Serialize x h, vchSig := sig\<rparr>) None w
             = Some (Inr (True, this, w1))))"
proof (intro conjI allI impI)
  assume "master_signature x (strMasterPrivKey w) (Serialize x h) = None"
  then show "SendSyncCheckpoint x h w = Some (Inr (False, w))" by (rule Send_unsigned)
next
  fix sig this w1
  assume a: "master_signature x (strMasterPrivKey w) (Serialize x h) = Some sig \<and>
        ProcessSyncCheckpoint x
          (SetNull\<lparr>hashCheckpoint := h, vchMsg := Serialize x h, vchSig := sig\<rparr>) None w
          = Some (Inr (False, this, w1))"
  then show "SendSyncCheckpoint x h w = Some (Inr (False, w1))"
    by (simp add: Send_signed)
  from a Process_sent show "sent w1 = sent w" by blast
next
  fix b w'
  assume a: "SendSyncCheckpoint x h w = Some (Inr (b, w')) \<and> sent w' \<noteq> sent w"
  show "\<exists>sig this w1.
           master_signature x (strMasterPrivKey w) (Serialize x h) = Some sig \<and>
           ProcessSyncCheckpoint x
             (SetNull\<lparr>hashCheckpoint := h, vchMsg := Serialize x h, vchSig := sig\<rparr>) None w
             = Some (Inr (True, this, w1))"
  proof (cases "master_signature x (strMasterPrivKey w) (Serialize x h)")
    case None
    from Send_unsigned[OF this] a show ?thesis by auto
  next
    case (Some sig)
    note key = Send_signed[OF Some]
    from a key obtain processed this w1 where
      p: "ProcessSyncCheckpoint x
            (SetNull\<lparr>hashCheckpoint := h, vchMsg := Serialize x h, vchSig := sig\<rparr>) None w
          = Some (Inr (processed, this, w1))"
      by (auto split: option.splits sum.splits)
    have "processed"
    proof (rule ccontr)
      assume "\<not> processed"
      with key p a have "w' = w1" by simp
      with Process_sent[OF p] a show False by simp
    qed
    with p Some show ?thesis by auto
  qed
qed

text \<open>
  In the example: without a key nothing happens; with the key and the checkpoint of hash
  12 current, the older hash 10 is signed, processed, ignored and not sent; with the key
  and genesis current, hash 12 is signed, accepted and relayed to the peers 7 and 8.
\<close>

lemma ex_signature: "master_signature ex_x ''key'' (Serialize ex_x h) = Some [1]"
  by (simp add: master_signature_def ex_x_def)

lemma ex_signed_msg:
  "SetNull\<lparr>hashCheckpoint := h, vchMsg := Serialize ex_x h, vchSig := [1]\<rparr> = ex_msg h"
  by (simp add: SetNull_def ex_msg_def ex_x_def)

lemma ex_process_10:
  "ProcessSyncCheckpoint ex_x (ex_msg 10) None
      (ex_w\<lparr>strMasterPrivKey := ''key'', hashSyncCheckpoint := 12\<rparr>)
   = Some (Inr (False, ex_msg 10, ex_w\<lparr>strMasterPrivKey := ''key'', hashSyncCheckpoint := 12\<rparr>))"
  by (simp add: ProcessSyncCheckpoint_def CheckSignature_def ValidateSyncCheckpoint_def
        ex_msg_def ex_x_def ex_w_def ex_index_def ex_mem_def TraceBack.simps)

lemma ex_send_12:
  "SendSyncCheckpoint ex_x 12 (ex_w\<lparr>strMasterPrivKey := ''key''\<rparr>)
   = Some (Inr (True, ex_w\<lparr>strMasterPrivKey := ''key'', pblocktree := [12],
                          hashSyncCheckpoint := 12, checkpointMessage := ex_msg 12,
                          sent := [Relay 7 (ex_msg 12), Relay 8 (ex_msg 12)]\<rparr>))"
  by (simp add: SendSyncCheckpoint_def ProcessSyncCheckpoint_def CheckSignature_def
        ValidateSyncCheckpoint_def WriteSyncCheckpoint_def RelayTo_def SetNull_def
        ex_msg_def ex_x_def ex_w_def ex_index_def ex_mem_def TraceBack.simps)

theorem send_relays_only_after_accept_witness:
  "master_signature ex_x (strMasterPrivKey ex_w) (Serialize ex_x 12) = None \<and>
   SendSyncCheckpoint ex_x 12 ex_w = Some (Inr (False, ex_w)) \<and>
   master_signature ex_x
     (strMasterPrivKey (ex_w\<lparr>strMasterPrivKey := ''key'', hashSyncCheckpoint := 12\<rparr>))
     (Serialize ex_x 10) = Some [1] \<and>
   ProcessSyncCheckpoint ex_x
     (SetNull\<lparr>hashCheckpoint := 10, vchMsg := Serialize ex_x 10, vchSig := [1]\<rparr>) None
     (ex_w\<lparr>strMasterPrivKey := ''key'', hashSyncCheckpoint := 12\<rparr>)
     = Some (Inr (False, ex_msg 10, ex_w\<lparr>strMasterPrivKey := ''key'', hashSyncCheckpoint := 12\<rparr>)) \<and>
   SendSyncCheckpoint ex_x 10 (ex_w\<lparr>strMasterPrivKey := ''key'', hashSyncCheckpoint := 12\<rparr>)
     = Some (Inr (False, ex_w\<lparr>strMasterPrivKey := ''key'', hashSyncCheckpoint := 12\<rparr>)) \<and>
   SendSyncCheckpoint ex_x 12 (ex_w\<lparr>strMasterPrivKey := ''key''\<rparr>)
     = Some (Inr (True, ex_w\<lparr>strMasterPrivKey := ''key'', pblocktree := [12],
                          hashSyncCheckpoint := 12, checkpointMessage := ex_msg 12,
                          sent := [Relay 7 (ex_msg 12), Relay 8 (ex_msg 12)]\<rparr>)) \<and>
   sent (ex_w\<lparr>strMasterPrivKey := ''key'', pblocktree := [12],
              hashSyncCheckpoint := 12, checkpointMessage := ex_msg 12,
              sent := [Relay 7 (ex_msg 12), Relay 8 (ex_msg 12)]\<rparr>)
     \<noteq> sent (ex_w\<lparr>strMasterPrivKey := ''key''\<rparr>) \<and>
   (\<exists>sig this w1.
      master_signature ex_x (strMasterPrivKey (ex_w\<lparr>strMasterPrivKey := ''key''\<rparr>))
        (Serialize ex_x 12) = Some sig \<and>
      ProcessSyncCheckpoint ex_x
        (SetNull\<lparr>hashCheckpoint := 12, vchMsg := Serialize ex_x 12, vchSig := sig\<rparr>) None
        (ex_w\<lparr>strMasterPrivKey := ''key''\<rparr>)
        = Some (Inr (True, this, w1)))"
proof -
  let ?wk = "ex_w\<lparr>strMasterPrivKey := ''key''\<rparr>"
  let ?w12 = "ex_w\<lparr>strMasterPrivKey := ''key'', hashSyncCheckpoint := 12\<rparr>"
  let ?wr = "ex_w\<lparr>strMasterPrivKey := ''key'', pblocktree := [12],
              hashSyncCheckpoint := 12, checkpointMessage := ex_msg 12,
              sent := [Relay 7 (ex_msg 12), Relay 8 (ex_msg 12)]\<rparr>"
  have nokey: "master_signature ex_x (strMasterPrivKey ex_w) (Serialize ex_x 12) = None"
    by (simp add: master_signature_def ex_w_def)
  have key10: "master_signature ex_x (strMasterPrivKey ?w12) (Serialize ex_x 10) = Some [1]"
    by (simp add: ex_signature)
  have p10: "ProcessSyncCheckpoint ex_x
     (SetNull\<lparr>hashCheckpoint := 10, vchMsg := Serialize ex_x 10, vchSig := [1]\<rparr>) None ?w12
     = Some (Inr (False, ex_msg 10, ?w12))"
    by (simp only: ex_signed_msg ex_process_10)
  have changed: "sent ?wr \<noteq> sent ?wk" by (simp add: ex_w_def)
  from send_relays_only_after_accept[of ex_x ex_w 12] nokey
  have c1: "SendSyncCheckpoint ex_x 12 ex_w = Some (Inr (False, ex_w))" by blast
  from send_relays_only_after_accept[of ex_x ?w12 10] key10 p10
  have c2: "SendSyncCheckpoint ex_x 10 ?w12 = Some (Inr (False, ?w12))" by blast
  from send_relays_only_after_accept[of ex_x ?wk 12] ex_send_12 changed
  have c3: "\<exists>sig this w1.
      master_signature ex_x (strMasterPrivKey ?wk) (Serialize ex_x 12) = Some sig \<and>
      ProcessSyncCheckpoint ex_x
        (SetNull\<lparr>hashCheckpoint := 12, vchMsg := Serialize ex_x 12, vchSig := sig\<rparr>) None ?wk
        = Some (Inr (True, this, w1))" by blast
  from nokey c1 key10 p10 c2 ex_send_12 changed c3 show ?thesis by blast
qed

section \<open>Reset to the hardened checkpoint\<close>

text \<open>
  C9, as the claim has it, fails where the latest hardened checkpoint is the genesis
  block. In the example network of that kind, on a node with an empty index:
  \<open>ResetSyncCheckpoint\<close> returns true, the block of the hardened checkpoint is not in
  the index, genesis (hash 10) is written, and so the current checkpoint hash equals the
  hardened checkpoint hash although its block is neither known nor in the active chain.
\<close>

theorem reset_hardened_is_genesis_counterexample:
  "GetLatestHardenedCheckpoint ex_x_genesis_only = hashGenesisBlock ex_x_genesis_only \<and>
   mapBlockIndex ex_w_empty (GetLatestHardenedCheckpoint ex_x_genesis_only) = None \<and>
   \<not> hardened_active ex_x_genesis_only ex_w_empty \<and>
   ResetSyncCheckpoint ex_x_genesis_only ex_w_empty = (True, ex_w_reset) \<and>
   hashSyncCheckpoint ex_w_reset = GetLatestHardenedCheckpoint ex_x_genesis_only"
proof -
  have g: "GetLatestHardenedCheckpoint ex_x_genesis_only = hashGenesisBlock ex_x_genesis_only"
    by (simp add: ex_x_genesis_only_def ex_x_def)
  have u: "mapBlockIndex ex_w_empty (GetLatestHardenedCheckpoint ex_x_genesis_only) = None"
    by (simp add: ex_w_empty_def)
  have na: "\<not> hardened_active ex_x_genesis_only ex_w_empty"
    by (simp add: hardened_active_def ex_w_empty_def)
  have r: "ResetSyncCheckpoint ex_x_genesis_only ex_w_empty = (True, ex_w_reset)"
    by (simp add: ResetSyncCheckpoint_def WriteSyncCheckpoint_def ex_x_genesis_only_def
          ex_x_def ex_w_reset_def ex_w_empty_def ex_w_def)
  have h: "hashSyncCheckpoint ex_w_reset = GetLatestHardenedCheckpoint ex_x_genesis_only"
    by (simp add: ex_w_reset_def ex_x_genesis_only_def)
  from g u na r h show ?thesis by blast
qed

text \<open>
  C9, amended. When \<open>ResetSyncCheckpoint\<close> returns true: the current checkpoint hash is
  the latest hardened checkpoint if the block of that hash is in the index and in the
  active chain, and the genesis hash in every other case; the write of that hash and the
  commit both returned true, and the database is the one they left; and if the block is
  in the index but not in the active chain, the pending hash and the pending message are
  as before. So the current checkpoint hash equals the hardened one exactly when its
  block is in the index and in the active chain, or the hardened checkpoint is the
  genesis block.
\<close>

theorem reset_persists_hardened_or_genesis:
  assumes ok: "ResetSyncCheckpoint x w = (True, w')"
  shows "hashSyncCheckpoint w' =
           (if hardened_active x w then GetLatestHardenedCheckpoint x else hashGenesisBlock x)
       \<and> durable_write_ok x (pblocktree w)
           (if hardened_active x w then GetLatestHardenedCheckpoint x else hashGenesisBlock x)
       \<and> pblocktree w' = snd (txdb_Sync x (snd (txdb_WriteSyncCheckpoint x (pblocktree w)
           (if hardened_active x w then GetLatestHardenedCheckpoint x else hashGenesisBlock x))))
       \<and> (mapBlockIndex w (GetLatestHardenedCheckpoint x) \<noteq> None \<and> \<not> hardened_active x w \<longrightarrow>
            hashPendingCheckpoint w' = hashPendingCheckpoint w \<and>
            checkpointMessagePending w' = checkpointMessagePending w)
       \<and> (hashSyncCheckpoint w' = GetLatestHardenedCheckpoint x \<longleftrightarrow>
            hardened_active x w \<or> GetLatestHardenedCheckpoint x = hashGenesisBlock x)"
proof -
  let ?hash = "GetLatestHardenedCheckpoint x"
  let ?t = "if hardened_active x w then ?hash else hashGenesisBlock x"
  let ?w1 = "case mapBlockIndex w ?hash of Some pindex \<Rightarrow> w
             | None \<Rightarrow> w\<lparr>hashPendingCheckpoint := ?hash, checkpointMessagePending := SetNull\<rparr>"
  have t: "(if (case mapBlockIndex ?w1 ?hash of None \<Rightarrow> False
                | Some pindex \<Rightarrow> chainActive_Contains ?w1 pindex)
            then ?hash else hashGenesisBlock x) = ?t"
    by (auto simp: hardened_active_def split: option.splits)
  have r: "ResetSyncCheckpoint x w = WriteSyncCheckpoint x ?t ?w1"
    unfolding ResetSyncCheckpoint_def Let_def t ..
  have db: "pblocktree ?w1 = pblocktree w" by (simp split: option.splits)
  from ok r have wr: "WriteSyncCheckpoint x ?t ?w1 = (True, w')" by simp
  from Write_result[OF wr] db have dok: "durable_write_ok x (pblocktree w) ?t" by simp
  then have "durable_write_ok x (pblocktree ?w1) ?t" using db by simp
  from Write_ok[OF this] wr db
  have w': "w' = ?w1\<lparr>pblocktree := snd (txdb_Sync x (snd (txdb_WriteSyncCheckpoint x (pblocktree w) ?t))),
                     hashSyncCheckpoint := ?t\<rparr>" by simp
  show ?thesis
  proof (intro conjI impI)
    show "hashSyncCheckpoint w' = ?t" by (subst w') simp
    show "durable_write_ok x (pblocktree w) ?t" by (rule dok)
    show "pblocktree w' = snd (txdb_Sync x (snd (txdb_WriteSyncCheckpoint x (pblocktree w) ?t)))"
      by (subst w') simp
    assume k: "mapBlockIndex w ?hash \<noteq> None \<and> \<not> hardened_active x w"
    then show "hashPendingCheckpoint w' = hashPendingCheckpoint w"
      by (subst w') auto
    from k show "checkpointMessagePending w' = checkpointMessagePending w"
      by (subst w') auto
  next
    have "hashSyncCheckpoint w' = ?t" by (subst w') simp
    then show "hashSyncCheckpoint w' = ?hash \<longleftrightarrow>
                 hardened_active x w \<or> ?hash = hashGenesisBlock x"
      by auto
  qed
qed

text \<open>In the example the hardened checkpoint is the fork block of hash 13: in the index,
  not in the active chain. Genesis (hash 10) is written, and a pending checkpoint stays.\<close>

theorem reset_persists_hardened_or_genesis_witness:
  "ResetSyncCheckpoint ex_x (ex_w\<lparr>hashSyncCheckpoint := 12, hashPendingCheckpoint := 99\<rparr>)
     = (True, ex_w\<lparr>hashSyncCheckpoint := 10, hashPendingCheckpoint := 99, pblocktree := [10]\<rparr>) \<and>
   mapBlockIndex (ex_w\<lparr>hashSyncCheckpoint := 12, hashPendingCheckpoint := 99\<rparr>)
     (GetLatestHardenedCheckpoint ex_x) \<noteq> None \<and>
   \<not> hardened_active ex_x (ex_w\<lparr>hashSyncCheckpoint := 12, hashPendingCheckpoint := 99\<rparr>) \<and>
   hashSyncCheckpoint (ex_w\<lparr>hashSyncCheckpoint := 10, hashPendingCheckpoint := 99, pblocktree := [10]\<rparr>)
     = hashGenesisBlock ex_x \<and>
   durable_write_ok ex_x (pblocktree (ex_w\<lparr>hashSyncCheckpoint := 12, hashPendingCheckpoint := 99\<rparr>))
     (hashGenesisBlock ex_x) \<and>
   hashPendingCheckpoint (ex_w\<lparr>hashSyncCheckpoint := 10, hashPendingCheckpoint := 99, pblocktree := [10]\<rparr>)
     = hashPendingCheckpoint (ex_w\<lparr>hashSyncCheckpoint := 12, hashPendingCheckpoint := 99\<rparr>) \<and>
   GetLatestHardenedCheckpoint ex_x \<noteq> hashGenesisBlock ex_x \<and>
   hashSyncCheckpoint (ex_w\<lparr>hashSyncCheckpoint := 10, hashPendingCheckpoint := 99, pblocktree := [10]\<rparr>)
     \<noteq> GetLatestHardenedCheckpoint ex_x"
proof -
  let ?w = "ex_w\<lparr>hashSyncCheckpoint := 12, hashPendingCheckpoint := 99\<rparr>"
  let ?w' = "ex_w\<lparr>hashSyncCheckpoint := 10, hashPendingCheckpoint := 99, pblocktree := [10]\<rparr>"
  have r: "ResetSyncCheckpoint ex_x ?w = (True, ?w')"
    by (simp add: ResetSyncCheckpoint_def WriteSyncCheckpoint_def ex_x_def ex_w_def ex_index_def)
  have kn: "mapBlockIndex ?w (GetLatestHardenedCheckpoint ex_x) \<noteq> None"
    by (simp add: ex_x_def ex_w_def ex_index_def)
  have na: "\<not> hardened_active ex_x ?w"
    by (simp add: hardened_active_def ex_x_def ex_w_def ex_index_def)
  have ne: "GetLatestHardenedCheckpoint ex_x \<noteq> hashGenesisBlock ex_x"
    by (simp add: ex_x_def)
  from reset_persists_hardened_or_genesis[OF r] kn na ne
  have h: "hashSyncCheckpoint ?w' = hashGenesisBlock ex_x"
    and d: "durable_write_ok ex_x (pblocktree ?w) (hashGenesisBlock ex_x)"
    and p: "hashPendingCheckpoint ?w' = hashPendingCheckpoint ?w"
    and n: "hashSyncCheckpoint ?w' \<noteq> GetLatestHardenedCheckpoint ex_x"
    by presburger+
  from r kn na h d p ne n show ?thesis by blast
qed

section \<open>Automatic selection of a checkpoint\<close>

lemma int_cast_id: "- 2147483648 \<le> v \<Longrightarrow> v \<le> 2147483647 \<Longrightarrow> int_cast v = v"
  by (simp add: int_cast_def signed_of_int signed_take_bit_int_eq_self)

text \<open>
  In a well-formed index, and where the sum stays in the 32-bit range, the search ends:
  on the block that lies as many steps back as are needed to come down to
  \<open>H - D\<close>, or on the root when that comes first.
\<close>

lemma SearchBackward_walk:
  "block_tree_ok I M \<Longrightarrow> known I M a \<Longrightarrow> nat (nHeight (M a)) = n \<Longrightarrow>
   - 2147483648 \<le> D \<Longrightarrow> nHeight (M a) + D \<le> 2147483647 \<Longrightarrow>
   \<exists>r. SearchBackward M D H a = Some r \<and>
       walk M (min (nat (nHeight (M a) + D - H)) n) a = Some r"
proof (induction n arbitrary: a)
  case 0
  from known_nonneg[OF 0(1,2)] 0(3) have h0: "nHeight (M a) = 0" by simp
  show ?case
  proof (cases "pprev (M a)")
    case None
    then show ?thesis by (subst SearchBackward.simps) simp
  next
    case (Some p)
    from known_prev[OF 0(1,2) Some] h0 have "known I M p" "nHeight (M p) = - 1" by simp_all
    with known_nonneg[OF 0(1)] show ?thesis by fastforce
  qed
next
  case (Suc n)
  from Suc.prems(3) have pos: "nHeight (M a) = int n + 1" by linarith
  with known_root[OF Suc.prems(1,2)] obtain p where p: "pprev (M a) = Some p"
    by (cases "pprev (M a)") auto
  from known_prev[OF Suc.prems(1,2) p] have kp: "known I M p"
    and hp: "nHeight (M p) = nHeight (M a) - 1" by simp_all
  from pos Suc.prems(4,5) have cast: "int_cast (nHeight (M a) + D) = nHeight (M a) + D"
    by (intro int_cast_id) simp_all
  show ?case
  proof (cases "nHeight (M a) + D > H")
    case True
    from hp pos have "nat (nHeight (M p)) = n" by simp
    moreover from hp Suc.prems(5) have "nHeight (M p) + D \<le> 2147483647" by simp
    ultimately obtain r where
      sb: "SearchBackward M D H p = Some r"
      and wk: "walk M (min (nat (nHeight (M p) + D - H)) n) p = Some r"
      using Suc.IH[OF Suc.prems(1) kp _ Suc.prems(4)] by blast
    from True hp have "nat (nHeight (M a) + D - H) = Suc (nat (nHeight (M p) + D - H))"
      by linarith
    with wk p have "walk M (min (nat (nHeight (M a) + D - H)) (Suc n)) a = Some r" by simp
    moreover from True p sb cast have "SearchBackward M D H a = Some r"
      by (subst SearchBackward.simps) simp
    ultimately show ?thesis by blast
  next
    case False
    with p cast have "SearchBackward M D H a = Some a"
      by (subst SearchBackward.simps) simp
    with False show ?thesis by simp
  qed
qed

text \<open>
  C4, as the claim has it, fails when the depth is larger than the height of the tip.
  In the example the tip has height 2 and the depth is 5: the function returns hash 10,
  the hash of genesis at height 0, and 0 is not at most \<open>2 - 5\<close>.
\<close>

theorem autoselect_depth_counterexample:
  "chainActive_Tip (ex_w\<lparr>mapArgs := [''-checkpointdepth'' \<mapsto> ''5'']\<rparr>) = Some 2 \<and>
   nHeight (memBlockIndex (ex_w\<lparr>mapArgs := [''-checkpointdepth'' \<mapsto> ''5'']\<rparr>) 2) = 2 \<and>
   checkpointdepth ex_x (ex_w\<lparr>mapArgs := [''-checkpointdepth'' \<mapsto> ''5'']\<rparr>) = 5 \<and>
   AutoSelectSyncCheckpoint ex_x (ex_w\<lparr>mapArgs := [''-checkpointdepth'' \<mapsto> ''5'']\<rparr>)
     = Some (Inr 10) \<and>
   mapBlockIndex (ex_w\<lparr>mapArgs := [''-checkpointdepth'' \<mapsto> ''5'']\<rparr>) 10 = Some 0 \<and>
   nHeight (memBlockIndex (ex_w\<lparr>mapArgs := [''-checkpointdepth'' \<mapsto> ''5'']\<rparr>) 0) = 0 \<and>
   \<not> nHeight (memBlockIndex (ex_w\<lparr>mapArgs := [''-checkpointdepth'' \<mapsto> ''5'']\<rparr>) 0)
       \<le> nHeight (memBlockIndex (ex_w\<lparr>mapArgs := [''-checkpointdepth'' \<mapsto> ''5'']\<rparr>) 2)
           - checkpointdepth ex_x (ex_w\<lparr>mapArgs := [''-checkpointdepth'' \<mapsto> ''5'']\<rparr>)"
proof -
  have d: "checkpointdepth ex_x (ex_w\<lparr>mapArgs := [''-checkpointdepth'' \<mapsto> ''5'']\<rparr>) = 5"
    by (simp add: checkpointdepth_def GetArg_def int_cast_def ex_x_def)
  have r: "AutoSelectSyncCheckpoint ex_x (ex_w\<lparr>mapArgs := [''-checkpointdepth'' \<mapsto> ''5'']\<rparr>)
     = Some (Inr 10)"
    by (simp add: AutoSelectSyncCheckpoint_def checkpointdepth_def GetArg_def int_cast_def
          ex_x_def ex_w_def ex_mem_def SearchBackward.simps)
  show ?thesis
    by (simp add: d r) (simp add: ex_w_def ex_mem_def ex_index_def)
qed

text \<open>
  C4, amended. The index is well formed, the tip is in it and has height \<open>H\<close>, the
  configured depth \<open>D\<close> is not negative, and \<open>H + D\<close> is in the range of a C++
  \<^verbatim>\<open>int\<close>. Then \<open>AutoSelectSyncCheckpoint\<close> returns, with the hash of a block \<open>r\<close>:
  when \<open>D \<le> H\<close>, \<open>r\<close> is \<open>D\<close> parent links behind the tip and its height is \<open>H - D\<close>
  (the tip itself when \<open>D = 0\<close>, since \<open>walk M 0 tip = Some tip\<close>); when \<open>D > H\<close>,
  \<open>r\<close> is the root that \<open>H\<close> parent links lead to, the block without a parent.
\<close>

theorem autoselect_depth:
  assumes ok: "block_tree_ok (mapBlockIndex w) (memBlockIndex w)"
    and tip: "chainActive_Tip w = Some tip"
    and kt: "known (mapBlockIndex w) (memBlockIndex w) tip"
    and D: "0 \<le> checkpointdepth x w"
    and range: "nHeight (memBlockIndex w tip) + checkpointdepth x w \<le> 2147483647"
  shows "\<exists>r. AutoSelectSyncCheckpoint x w = Some (Inr (GetBlockHash (memBlockIndex w r)))
            \<and> (if checkpointdepth x w \<le> nHeight (memBlockIndex w tip)
               then walk (memBlockIndex w) (nat (checkpointdepth x w)) tip = Some r
                    \<and> nHeight (memBlockIndex w r)
                        = nHeight (memBlockIndex w tip) - checkpointdepth x w
               else walk (memBlockIndex w) (nat (nHeight (memBlockIndex w tip))) tip = Some r
                    \<and> pprev (memBlockIndex w r) = None)"
proof -
  let ?M = "memBlockIndex w" and ?D = "checkpointdepth x w"
  let ?H = "nHeight (?M tip)"
  let ?n = "min (nat (?H + ?D - ?H)) (nat ?H)"
  from D have D': "- 2147483648 \<le> ?D" by simp
  from SearchBackward_walk[OF ok kt refl D' range, of ?H] obtain r where
    sb: "SearchBackward ?M ?D ?H tip = Some r" and wk: "walk ?M ?n tip = Some r"
    by blast
  from walk_known[OF ok kt wk] have kr: "known (mapBlockIndex w) ?M r"
    and hr: "nHeight (?M r) = ?H - int ?n" by simp_all
  from sb tip have res: "AutoSelectSyncCheckpoint x w = Some (Inr (GetBlockHash (?M r)))"
    by (simp add: AutoSelectSyncCheckpoint_def)
  from known_nonneg[OF ok kt] have Hn: "0 \<le> ?H" .
  show ?thesis
  proof (cases "?D \<le> ?H")
    case True
    with D have n: "?n = nat ?D" by simp
    with wk hr D True res show ?thesis by auto
  next
    case False
    with Hn have n: "?n = nat ?H" by simp
    with hr Hn have h0: "nHeight (?M r) = 0" by simp
    have "pprev (?M r) = None"
    proof (cases "pprev (?M r)")
      case (Some p)
      from known_prev[OF ok kr Some] h0 have "known (mapBlockIndex w) ?M p" "nHeight (?M p) = - 1"
        by simp_all
      with known_nonneg[OF ok] show ?thesis by fastforce
    qed simp
    with wk n False res show ?thesis by auto
  qed
qed

text \<open>In the example, with the tip at height 2: depth 0 gives the hash of the tip, 12;
  depth 1 gives the hash of its parent, 11.\<close>

theorem autoselect_depth_witness:
  "block_tree_ok (mapBlockIndex ex_w) (memBlockIndex ex_w) \<and>
   chainActive_Tip ex_w = Some 2 \<and>
   known (mapBlockIndex ex_w) (memBlockIndex ex_w) 2 \<and>
   nHeight (memBlockIndex ex_w 2) = 2 \<and>
   checkpointdepth ex_x (ex_w\<lparr>mapArgs := [''-checkpointdepth'' \<mapsto> ''0'']\<rparr>) = 0 \<and>
   AutoSelectSyncCheckpoint ex_x (ex_w\<lparr>mapArgs := [''-checkpointdepth'' \<mapsto> ''0'']\<rparr>)
     = Some (Inr 12) \<and>
   checkpointdepth ex_x (ex_w\<lparr>mapArgs := [''-checkpointdepth'' \<mapsto> ''1'']\<rparr>) = 1 \<and>
   AutoSelectSyncCheckpoint ex_x (ex_w\<lparr>mapArgs := [''-checkpointdepth'' \<mapsto> ''1'']\<rparr>)
     = Some (Inr 11)"
proof -
  let ?w0 = "ex_w\<lparr>mapArgs := [''-checkpointdepth'' \<mapsto> ''0'']\<rparr>"
  let ?w1 = "ex_w\<lparr>mapArgs := [''-checkpointdepth'' \<mapsto> ''1'']\<rparr>"
  have tip: "chainActive_Tip ex_w = Some 2" by (simp add: ex_w_def)
  have kt: "known (mapBlockIndex ex_w) (memBlockIndex ex_w) 2"
    by (simp add: known_def ex_w_def ex_index_def ex_mem_def)
  have H: "nHeight (memBlockIndex ex_w 2) = 2" by (simp add: ex_w_def ex_mem_def)
  have d0: "checkpointdepth ex_x ?w0 = 0"
    by (simp add: checkpointdepth_def GetArg_def int_cast_def ex_x_def)
  have d1: "checkpointdepth ex_x ?w1 = 1"
    by (simp add: checkpointdepth_def GetArg_def int_cast_def ex_x_def)
  have M: "memBlockIndex ex_w = ex_mem" by (simp add: ex_w_def)
  have ex: "nHeight (ex_mem 2) = 2" "pprev (ex_mem 2) = Some 1"
    "GetBlockHash (ex_mem (Suc 0)) = 11" "GetBlockHash (ex_mem 2) = 12"
    by (simp_all add: ex_mem_def)
  have ok0: "block_tree_ok (mapBlockIndex ?w0) (memBlockIndex ?w0)"
    and ok1: "block_tree_ok (mapBlockIndex ?w1) (memBlockIndex ?w1)"
    using ex_w_tree_ok by simp_all
  have tip0: "chainActive_Tip ?w0 = Some 2" and tip1: "chainActive_Tip ?w1 = Some 2"
    using tip by simp_all
  have kt0: "known (mapBlockIndex ?w0) (memBlockIndex ?w0) 2"
    and kt1: "known (mapBlockIndex ?w1) (memBlockIndex ?w1) 2"
    using kt by simp_all
  have H0: "nHeight (memBlockIndex ?w0 2) = 2" and H1: "nHeight (memBlockIndex ?w1 2) = 2"
    using H by simp_all
  have "\<exists>r. AutoSelectSyncCheckpoint ex_x ?w0 = Some (Inr (GetBlockHash (memBlockIndex ?w0 r)))
            \<and> (if checkpointdepth ex_x ?w0 \<le> nHeight (memBlockIndex ?w0 2)
               then walk (memBlockIndex ?w0) (nat (checkpointdepth ex_x ?w0)) 2 = Some r
                    \<and> nHeight (memBlockIndex ?w0 r)
                        = nHeight (memBlockIndex ?w0 2) - checkpointdepth ex_x ?w0
               else walk (memBlockIndex ?w0) (nat (nHeight (memBlockIndex ?w0 2))) 2 = Some r
                    \<and> pprev (memBlockIndex ?w0 r) = None)"
    by (rule autoselect_depth[OF ok0 tip0 kt0]) (simp_all add: d0 H)
  then have r0: "AutoSelectSyncCheckpoint ex_x ?w0 = Some (Inr 12)"
    by (auto simp: d0 M ex)
  have "\<exists>r. AutoSelectSyncCheckpoint ex_x ?w1 = Some (Inr (GetBlockHash (memBlockIndex ?w1 r)))
            \<and> (if checkpointdepth ex_x ?w1 \<le> nHeight (memBlockIndex ?w1 2)
               then walk (memBlockIndex ?w1) (nat (checkpointdepth ex_x ?w1)) 2 = Some r
                    \<and> nHeight (memBlockIndex ?w1 r)
                        = nHeight (memBlockIndex ?w1 2) - checkpointdepth ex_x ?w1
               else walk (memBlockIndex ?w1) (nat (nHeight (memBlockIndex ?w1 2))) 2 = Some r
                    \<and> pprev (memBlockIndex ?w1 r) = None)"
    by (rule autoselect_depth[OF ok1 tip1 kt1]) (simp_all add: d1 H)
  then have r1: "AutoSelectSyncCheckpoint ex_x ?w1 = Some (Inr 11)"
    by (auto simp: d1 M ex)
  from ex_w_tree_ok tip kt H d0 r0 d1 r1 show ?thesis by blast
qed

section \<open>Enforcement\<close>

text \<open>
  C5. With no argument set at all, neither \<^verbatim>\<open>-enforcecheckpoint\<close> nor
  \<^verbatim>\<open>-checkpointkey\<close>, \<open>IsSyncCheckpointEnforced\<close> returns true: the default that
  the function passes to \<^verbatim>\<open>GetBoolArg\<close> is true. The head of checkpointsync.cpp says
  that the user has to consent explicitly (``To enforce checkpoint, user needs to either
  issue command 'enforcecheckpoint true', or set configuration parameter
  enforcecheckpoint=1''), and so does the claim.
\<close>

theorem enforced_without_consent:
  "IsSyncCheckpointEnforced x (w\<lparr>mapArgs := Map.empty\<rparr>)"
  by (simp add: IsSyncCheckpointEnforced_def GetBoolArg_def)

section \<open>A checkpoint for an unknown block\<close>

text \<open>What the branch for an unknown block does, for every message that passes the
  signature check: it stores hash and message as pending and returns false.\<close>

lemma Process_unknown:
  assumes "CheckSignature x m = Inr (True, m')"
    and "mapBlockIndex w (hashCheckpoint m') = None"
  shows "ProcessSyncCheckpoint x m pfrom w =
           Some (Inr (False, m', w\<lparr>hashPendingCheckpoint := hashCheckpoint m',
                                   checkpointMessagePending := m'\<rparr>))"
  using assms by (simp add: ProcessSyncCheckpoint_def)

text \<open>
  C7. In the example a message with a valid signature for the unknown hash 99 arrives
  from peer 7. \<open>ProcessSyncCheckpoint\<close> stores it as pending and returns false, and
  nothing has been sent: no block is requested from peer 7. The source has the comment
  ``Ask this guy to fill in what we're missing'' over an \<^verbatim>\<open>if (pfrom)\<close> whose body is
  commented out; \<open>AskForPendingSyncCheckpoint\<close> does send the request, but
  \<open>ProcessSyncCheckpoint\<close> does not call it.
\<close>

theorem process_unknown_block_no_request:
  "CheckSignature ex_x (ex_msg 99) = Inr (True, ex_msg 99) \<and>
   mapBlockIndex ex_w 99 = None \<and>
   ProcessSyncCheckpoint ex_x (ex_msg 99) (Some 7) ex_w
     = Some (Inr (False, ex_msg 99,
          ex_w\<lparr>hashPendingCheckpoint := 99, checkpointMessagePending := ex_msg 99\<rparr>)) \<and>
   sent (ex_w\<lparr>hashPendingCheckpoint := 99, checkpointMessagePending := ex_msg 99\<rparr>) = [] \<and>
   sent (AskForPendingSyncCheckpoint (Some 7)
          (ex_w\<lparr>hashPendingCheckpoint := 99, checkpointMessagePending := ex_msg 99\<rparr>))
     = [AskFor 7 99]"
proof -
  have s: "CheckSignature ex_x (ex_msg 99) = Inr (True, ex_msg 99)"
    by (simp add: CheckSignature_def ex_x_def ex_msg_def)
  have u: "mapBlockIndex ex_w 99 = None" by (simp add: ex_w_def ex_index_def)
  have h: "hashCheckpoint (ex_msg 99) = 99" by (simp add: ex_msg_def)
  from Process_unknown[OF s, of ex_w "Some 7"] u h
  have p: "ProcessSyncCheckpoint ex_x (ex_msg 99) (Some 7) ex_w
     = Some (Inr (False, ex_msg 99,
          ex_w\<lparr>hashPendingCheckpoint := 99, checkpointMessagePending := ex_msg 99\<rparr>))"
    by simp
  have a: "sent (AskForPendingSyncCheckpoint (Some 7)
          (ex_w\<lparr>hashPendingCheckpoint := 99, checkpointMessagePending := ex_msg 99\<rparr>))
     = [AskFor 7 99]"
    by (simp add: AskForPendingSyncCheckpoint_def ex_w_def ex_index_def)
  from s u p a show ?thesis by (simp add: ex_w_def)
qed

end
